theory Spec2Isabelle
  imports Main
begin

section \<open>Values, exceptions and effects\<close>

text \<open>
  The fetchers of \<^verbatim>\<open>src/kivra/receipts.py\<close> and \<^verbatim>\<open>src/kivra/letters.py\<close> talk to two
  collaborators: the API client (\<^verbatim>\<open>src/kivra/api.py\<close>) and a document store
  (\<^verbatim>\<open>src/storage/base.py\<close>). Every call to either of them may raise, so every call
  returns \<open>exn + 'a\<close> (\<open>Inl\<close> is the raised exception). The values of \<open>exn\<close> are
  instances of Python's \<^verbatim>\<open>Exception\<close>: what \<^verbatim>\<open>except Exception\<close> catches.

  JSON objects are records whose fields are \<open>option\<close>s where the code reads them
  with \<^verbatim>\<open>.get\<close>: \<open>None\<close> is the absent field. The documents follow the GraphQL
  schema of \<^verbatim>\<open>src/kivra/models.py\<close>: a present field has the schema's type.
\<close>

datatype exn =
    Exception string
  | TypeError string
  | KeyError string
  | AttributeError string
  | ValueError string
  | UnboundLocalError string

text \<open>\<^verbatim>\<open>str(e)\<close>, as the log messages use it.\<close>

fun str_exn :: "exn \<Rightarrow> string" where
  "str_exn (Exception m) = m"
| "str_exn (TypeError m) = m"
| "str_exn (KeyError k) = [CHR 0x27] @ k @ [CHR 0x27]"
| "str_exn (AttributeError m) = m"
| "str_exn (ValueError m) = m"
| "str_exn (UnboundLocalError m) = m"

text \<open>Truthiness of an optional string: \<^verbatim>\<open>None\<close> and \<^verbatim>\<open>''\<close> are falsy.\<close>

fun truthy :: "string option \<Rightarrow> bool" where
  "truthy None = False"
| "truthy (Some s) = (s \<noteq> [])"

text \<open>The slice \<^verbatim>\<open>xs[:m]\<close> for an integer \<open>m\<close>; a negative \<open>m\<close> counts from the end.\<close>

definition slice_to :: "int \<Rightarrow> 'a list \<Rightarrow> 'a list" where
  "slice_to m xs = (if 0 \<le> m then take (nat m) xs else take (length xs - nat (- m)) xs)"

text \<open>\<^verbatim>\<open>xs = xs[:max_count]\<close> under \<^verbatim>\<open>if max_count is not None\<close>.\<close>

definition limit_to :: "int option \<Rightarrow> 'a list \<Rightarrow> 'a list" where
  "limit_to max_count xs = (case max_count of None \<Rightarrow> xs | Some m \<Rightarrow> slice_to m xs)"

text \<open>\<^verbatim>\<open>format_date\<close> of \<^verbatim>\<open>src/utils/helpers.py\<close>: \<^verbatim>\<open>iso_date.split('T')[0] if iso_date else 'unknown_date'\<close>.\<close>

definition format_date :: "string option \<Rightarrow> string" where
  "format_date iso_date =
     (case iso_date of
        None \<Rightarrow> ''unknown_date''
      | Some s \<Rightarrow> if s = [] then ''unknown_date'' else takeWhile (\<lambda>c. c \<noteq> CHR ''T'') s)"

subsection \<open>Document metadata (\<^verbatim>\<open>src/kivra/models.py\<close>)\<close>

text \<open>
  The metadata dictionaries of \<^verbatim>\<open>KivraReceipt.get_metadata\<close> and
  \<^verbatim>\<open>KivraLetter.get_metadata\<close>; the constructor is the \<^verbatim>\<open>'type'\<close> entry. A letter's
  \<^verbatim>\<open>'part_index'\<close> entry is present only when the index is not \<^verbatim>\<open>None\<close>.
\<close>

datatype metadata =
    ReceiptMetadata (md_date: string) (md_name: string) (md_key: string) (md_content_type: string)
  | LetterMetadata (md_date: string) (md_name: string) (md_key: string) (md_content_type: string)
      (md_part_index: "nat option")

record KivraReceipt =
  kr_key :: string
  kr_date :: string
  kr_store_name :: string

record KivraLetter =
  kl_key :: string
  kl_date :: string
  kl_sender_name :: string
  kl_part_index :: "nat option"

definition receipt_get_metadata :: "KivraReceipt \<Rightarrow> string \<Rightarrow> metadata" where
  "receipt_get_metadata r content_type =
     ReceiptMetadata (kr_date r) (kr_store_name r) (kr_key r) content_type"

definition letter_get_metadata :: "KivraLetter \<Rightarrow> string \<Rightarrow> metadata" where
  "letter_get_metadata l content_type =
     LetterMetadata (kl_date l) (kl_sender_name l) (kl_key l) content_type (kl_part_index l)"

subsection \<open>Remote documents\<close>

record named_ref =
  nr_name :: "string option"

record receipt_data =
  rd_key :: "string option"
  rd_purchaseDate :: "string option"
  rd_store :: "named_ref option"

record receipts_v2 =
  rv_list :: "receipt_data list option"
  rv_total :: "int option"

record letter_data =
  ld_key :: "string option"
  ld_receivedAt :: "string option"
  ld_sender :: "named_ref option"

record contents_page =
  cp_list :: "letter_data list option"
  cp_existsMore :: "bool option"
  cp_total :: "int option"

record letter_part =
  lp_content_type :: "string option"
  lp_body :: "string option"
  lp_key :: "string option"

record content_data =
  cd_parts :: "letter_part list option"

text \<open>What is handed to the store: text, bytes, or \<^verbatim>\<open>None\<close> (an HTML part without a body).\<close>

datatype content = Text string | Bytes string | NoneContent

text \<open>
  The \<^verbatim>\<open>data\<close> argument of \<^verbatim>\<open>report_metadata\<close>: the receipt details (an opaque JSON
  text), or the letter's list entry merged with its content details
  (\<^verbatim>\<open>{**letter_data, "content": content_data}\<close>).
\<close>

datatype doc_data = ReceiptDetails string | LetterDetails letter_data content_data

datatype listing = ReceiptsListing receipts_v2 | LettersListing "letter_data list"

subsection \<open>The world: store state and a trace of calls\<close>

text \<open>
  The trace records, in order, every request to the remote service, every call to the
  document store with its outcome (the value returned or the exception raised), and
  every warning and error logged. Console output (\<^verbatim>\<open>print\<close>) is not recorded.
\<close>

datatype event =
    QueryReceipts
  | QueryContentList "string option"
  | QueryReceiptDetails string
  | GetPdf string
  | GetContentDetails string
  | GetContentFile string string
  | ReportListing string listing "exn + unit"
  | Exists metadata "exn + bool"
  | ReportMetadata doc_data metadata "exn + bool"
  | Store content metadata "exn + bool"
  | LogWarning string
  | LogError string

record 's world =
  store_state :: 's
  trace :: "event list"

type_synonym ('a, 's) action = "'s world \<Rightarrow> (exn + 'a) \<times> 's world"

definition ret :: "'a \<Rightarrow> ('a, 's) action" where
  "ret x w = (Inr x, w)"

definition raise :: "exn \<Rightarrow> ('a, 's) action" where
  "raise e w = (Inl e, w)"

definition bnd :: "('a, 's) action \<Rightarrow> ('a \<Rightarrow> ('b, 's) action) \<Rightarrow> ('b, 's) action" where
  "bnd m f w = (case m w of (Inl e, w') \<Rightarrow> (Inl e, w') | (Inr x, w') \<Rightarrow> f x w')"

text \<open>\<^verbatim>\<open>try: m  except Exception as e: h e\<close>.\<close>

definition try_except :: "('a, 's) action \<Rightarrow> (exn \<Rightarrow> ('a, 's) action) \<Rightarrow> ('a, 's) action" where
  "try_except m h w = (case m w of (Inl e, w') \<Rightarrow> h e w' | (Inr x, w') \<Rightarrow> (Inr x, w'))"

definition emit :: "event \<Rightarrow> (unit, 's) action" where
  "emit ev w = (Inr (), w\<lparr>trace := trace w @ [ev]\<rparr>)"

text \<open>A call to the remote service: recorded, then answered by the (stateless) server.\<close>

definition remote :: "event \<Rightarrow> (exn + 'a) \<Rightarrow> ('a, 's) action" where
  "remote ev r w = (r, w\<lparr>trace := trace w @ [ev]\<rparr>)"

text \<open>A call to the document store: recorded, then run on the store's state.\<close>

definition store_call :: "((exn + 'a) \<Rightarrow> event) \<Rightarrow> ('s \<Rightarrow> (exn + 'a) \<times> 's) \<Rightarrow> ('a, 's) action" where
  "store_call ev f w =
     (case f (store_state w) of
        (r, s') \<Rightarrow> (r, w\<lparr>store_state := s', trace := trace w @ [ev r]\<rparr>))"

subsection \<open>The collaborators\<close>

text \<open>
  \<^verbatim>\<open>KivraApiClient\<close>: each request is answered from its arguments. \<open>receipts_query\<close>
  is the \<^verbatim>\<open>receiptsV2\<close> object of the \<^verbatim>\<open>Receipts\<close> query, \<open>content_list\<close> the
  \<^verbatim>\<open>contents\<close> object of the \<^verbatim>\<open>ContentList\<close> query for a cursor \<^verbatim>\<open>after\<close>,
  \<open>receipt_details\<close> the \<^verbatim>\<open>receiptV2\<close> object of \<^verbatim>\<open>ReceiptDetails\<close>.
\<close>

record api_client =
  actor_key :: string
  receipts_query :: "exn + receipts_v2"
  receipt_details :: "string \<Rightarrow> exn + string"
  get_pdf :: "string \<Rightarrow> exn + string"
  content_list :: "string option \<Rightarrow> exn + contents_page"
  get_content_details :: "string \<Rightarrow> exn + content_data"
  get_content_file :: "string \<Rightarrow> string \<Rightarrow> exn + string"

text \<open>\<^verbatim>\<open>DocumentStoreProvider\<close> (\<^verbatim>\<open>src/storage/base.py\<close>), over a store state \<open>'s\<close>.\<close>

record 's document_store =
  report_listing :: "string \<Rightarrow> listing \<Rightarrow> 's \<Rightarrow> (exn + unit) \<times> 's"
  exists_doc :: "metadata \<Rightarrow> 's \<Rightarrow> (exn + bool) \<times> 's"
  store :: "content \<Rightarrow> metadata \<Rightarrow> 's \<Rightarrow> (exn + bool) \<times> 's"
  report_metadata :: "doc_data \<Rightarrow> metadata \<Rightarrow> 's \<Rightarrow> (exn + bool) \<times> 's"

section \<open>The receipt fetcher (\<^verbatim>\<open>src/kivra/receipts.py\<close>)\<close>

text \<open>
  The counter \<^verbatim>\<open>receipts_stored\<close> is an \<open>int option\<close>: \<open>None\<close> is Python's
  \<^verbatim>\<open>None\<close>, which the bare \<^verbatim>\<open>return\<close> of a receipt without a key hands back.
  \<^verbatim>\<open>receipts_stored += 1\<close> on \<^verbatim>\<open>None\<close> raises \<^verbatim>\<open>TypeError\<close>.
\<close>

definition increment :: "int option \<Rightarrow> (int option, 's) action" where
  "increment c =
     (case c of
        None \<Rightarrow> raise (TypeError ''unsupported operand type(s) for +=: NoneType and int'')
      | Some n \<Rightarrow> ret (Some (n + 1)))"

definition pdf_url :: "api_client \<Rightarrow> string \<Rightarrow> string" where
  "pdf_url api k = ''https://app.api.kivra.com/v1/user/'' @ actor_key api @ ''/receipts/'' @ k"

definition fetch_and_store_pdf ::
  "api_client \<Rightarrow> 's document_store \<Rightarrow> KivraReceipt \<Rightarrow> (bool, 's) action" where
  "fetch_and_store_pdf api ds receipt =
     try_except
       (bnd (remote (GetPdf (pdf_url api (kr_key receipt))) (get_pdf api (pdf_url api (kr_key receipt))))
         (\<lambda>pdf_content.
            store_call
              (Store (Bytes pdf_content) (receipt_get_metadata receipt ''application/pdf''))
              (store ds (Bytes pdf_content) (receipt_get_metadata receipt ''application/pdf''))))
       (\<lambda>e. bnd (emit (LogError (''Error fetching PDF for receipt '' @ kr_key receipt @ '': '' @ str_exn e)))
              (\<lambda>_. raise e))"

definition receipt_of :: "string \<Rightarrow> receipt_data \<Rightarrow> KivraReceipt" where
  "receipt_of receipt_key receipt_data =
     \<lparr> kr_key = receipt_key,
       kr_date = format_date
         (case rd_purchaseDate receipt_data of None \<Rightarrow> Some ''unknown_date'' | Some d \<Rightarrow> Some d),
       kr_store_name =
         (case rd_store receipt_data of
            None \<Rightarrow> ''unknown_store''
          | Some st \<Rightarrow> (case nr_name st of None \<Rightarrow> ''unknown_store'' | Some n \<Rightarrow> n)) \<rparr>"

text \<open>The JSON-metadata fingerprint of a list entry: \<^verbatim>\<open>receipt.get_metadata()\<close>.\<close>

definition receipt_fingerprint :: "receipt_data \<Rightarrow> metadata" where
  "receipt_fingerprint receipt_data =
     receipt_get_metadata (receipt_of (the (rd_key receipt_data)) receipt_data) ''application/json''"

text \<open>The \<^verbatim>\<open>try\<close> block of \<^verbatim>\<open>_process_receipt\<close>, then the block with its handler.\<close>

definition receipt_body ::
  "api_client \<Rightarrow> 's document_store \<Rightarrow> receipt_data \<Rightarrow> int option \<Rightarrow> (int option, 's) action" where
  "receipt_body api ds rd c =
       (bnd (remote (QueryReceiptDetails (the (rd_key rd))) (receipt_details api (the (rd_key rd))))
         (\<lambda>receipt_details.
            bnd (store_call
                   (ReportMetadata (ReceiptDetails receipt_details) (receipt_fingerprint rd))
                   (report_metadata ds (ReceiptDetails receipt_details) (receipt_fingerprint rd)))
              (\<lambda>_.
                 bnd (fetch_and_store_pdf api ds (receipt_of (the (rd_key rd)) rd))
                   (\<lambda>stored. if stored then increment c else ret c))))"

definition receipt_guarded ::
  "api_client \<Rightarrow> 's document_store \<Rightarrow> receipt_data \<Rightarrow> int option \<Rightarrow> (int option, 's) action" where
  "receipt_guarded api ds rd c =
     try_except (receipt_body api ds rd c)
       (\<lambda>e. bnd (emit (LogError (''Error processing receipt '' @ the (rd_key rd) @ '': '' @ str_exn e)))
              (\<lambda>_. ret c))"

definition process_receipt ::
  "api_client \<Rightarrow> 's document_store \<Rightarrow> receipt_data \<Rightarrow> int option \<Rightarrow> (int option, 's) action" where
  "process_receipt api ds receipt_data receipts_stored =
     (if \<not> truthy (rd_key receipt_data) then
        bnd (emit (LogWarning ''Receipt missing key, skipping'')) (\<lambda>_. ret None)
      else
        bnd (store_call (Exists (receipt_fingerprint receipt_data))
               (exists_doc ds (receipt_fingerprint receipt_data)))
          (\<lambda>found.
             if found then ret receipts_stored
             else receipt_guarded api ds receipt_data receipts_stored))"

primrec process_receipts ::
  "api_client \<Rightarrow> 's document_store \<Rightarrow> receipt_data list \<Rightarrow> int option \<Rightarrow> (int option, 's) action" where
  "process_receipts api ds [] receipts_stored = ret receipts_stored"
| "process_receipts api ds (receipt_data # rest) receipts_stored =
     bnd (process_receipt api ds receipt_data receipts_stored) (process_receipts api ds rest)"

record statistics =
  total :: int
  fetched :: int
  stored :: "int option"

text \<open>\<^verbatim>\<open>receipts.get('list', [])\<close> and \<^verbatim>\<open>receipts.get('total', 0)\<close>.\<close>

definition receipt_list_of :: "receipts_v2 \<Rightarrow> receipt_data list" where
  "receipt_list_of receipts = (case rv_list receipts of None \<Rightarrow> [] | Some l \<Rightarrow> l)"

definition total_of :: "receipts_v2 \<Rightarrow> int" where
  "total_of receipts = (case rv_total receipts of None \<Rightarrow> 0 | Some t \<Rightarrow> t)"

definition receipts_failed :: "exn \<Rightarrow> (statistics, 's) action" where
  "receipts_failed e =
     bnd (emit (LogError (''Error fetching receipts: '' @ str_exn e))) (\<lambda>_. raise e)"

text \<open>What \<^verbatim>\<open>fetch_receipts\<close> does with the answer to its query.\<close>

definition receipts_listed ::
  "api_client \<Rightarrow> 's document_store \<Rightarrow> int option \<Rightarrow> receipts_v2 \<Rightarrow> (statistics, 's) action" where
  "receipts_listed api ds max_count receipts =
     (let receipt_list = receipt_list_of receipts;
          total_receipts = total_of receipts
      in bnd (store_call (ReportListing ''receipts'' (ReceiptsListing receipts))
                (report_listing ds ''receipts'' (ReceiptsListing receipts)))
           (\<lambda>_.
              let receipt_list = limit_to max_count receipt_list
              in bnd (process_receipts api ds receipt_list (Some 0))
                   (\<lambda>receipts_stored.
                      ret \<lparr> total = total_receipts,
                            fetched = int (length receipt_list),
                            stored = receipts_stored \<rparr>)))"

definition fetch_receipts ::
  "api_client \<Rightarrow> 's document_store \<Rightarrow> int option \<Rightarrow> (statistics, 's) action" where
  "fetch_receipts api ds max_count =
     try_except
       (bnd (remote QueryReceipts (receipts_query api)) (receipts_listed api ds max_count))
       receipts_failed"

section \<open>The letter fetcher (\<^verbatim>\<open>src/kivra/letters.py\<close>)\<close>

text \<open>
  One iteration of the loop of \<^verbatim>\<open>_process_letter_parts\<close>: \<open>multi\<close> is
  \<^verbatim>\<open>len(parts) > 1\<close>. The result is the updated \<^verbatim>\<open>parts_stored\<close>.
\<close>

definition part_letter :: "KivraLetter \<Rightarrow> bool \<Rightarrow> nat \<Rightarrow> KivraLetter" where
  "part_letter letter multi part_index =
     \<lparr> kl_key = kl_key letter, kl_date = kl_date letter, kl_sender_name = kl_sender_name letter,
       kl_part_index = (if multi then Some part_index else None) \<rparr>"

definition store_counted ::
  "'s document_store \<Rightarrow> content \<Rightarrow> metadata \<Rightarrow> int \<Rightarrow> (int, 's) action" where
  "store_counted ds c md parts_stored =
     bnd (store_call (Store c md) (store ds c md))
       (\<lambda>ok. ret (if ok then parts_stored + 1 else parts_stored))"

definition process_part ::
  "api_client \<Rightarrow> 's document_store \<Rightarrow> KivraLetter \<Rightarrow> bool \<Rightarrow> nat \<Rightarrow> letter_part \<Rightarrow> int
     \<Rightarrow> (int, 's) action" where
  "process_part api ds letter multi part_index part parts_stored =
     (let content_type = lp_content_type part;
          pl = part_letter letter multi part_index
      in if content_type = Some ''text/plain'' then
           store_counted ds (Text (case lp_body part of None \<Rightarrow> [] | Some b \<Rightarrow> b))
             (letter_get_metadata pl ''text/plain'') parts_stored
         else if content_type = Some ''text/html'' then
           store_counted ds (case lp_body part of None \<Rightarrow> NoneContent | Some b \<Rightarrow> Text b)
             (letter_get_metadata pl ''text/html'') parts_stored
         else if content_type = Some ''application/pdf'' then
           (if \<not> truthy (lp_key part) then
              bnd (emit (LogWarning (''PDF part in letter '' @ kl_key letter @ '' missing key'')))
                (\<lambda>_. ret parts_stored)
            else
              let file_key = the (lp_key part) in
              try_except
                (bnd (remote (GetContentFile (kl_key letter) file_key)
                        (get_content_file api (kl_key letter) file_key))
                  (\<lambda>pdf_content.
                     store_counted ds (Bytes pdf_content)
                       (letter_get_metadata pl ''application/pdf'') parts_stored))
                (\<lambda>e. bnd (emit (LogError (''Error fetching PDF for letter '' @ kl_key letter
                                  @ '', file '' @ file_key @ '': '' @ str_exn e)))
                       (\<lambda>_. raise e)))
         else
           bnd (emit (LogWarning (''Unknown content type in letter '' @ kl_key letter @ '': ''
                  @ (case content_type of None \<Rightarrow> ''None'' | Some t \<Rightarrow> t))))
             (\<lambda>_. ret parts_stored))"

primrec process_parts ::
  "api_client \<Rightarrow> 's document_store \<Rightarrow> KivraLetter \<Rightarrow> bool \<Rightarrow> letter_part list \<Rightarrow> nat \<Rightarrow> int
     \<Rightarrow> (int, 's) action" where
  "process_parts api ds letter multi [] part_index parts_stored = ret parts_stored"
| "process_parts api ds letter multi (part # rest) part_index parts_stored =
     bnd (process_part api ds letter multi part_index part parts_stored)
       (process_parts api ds letter multi rest (Suc part_index))"

definition process_letter_parts ::
  "api_client \<Rightarrow> 's document_store \<Rightarrow> KivraLetter \<Rightarrow> content_data \<Rightarrow> (int, 's) action" where
  "process_letter_parts api ds letter content_data =
     (let parts = (case cd_parts content_data of None \<Rightarrow> [] | Some ps \<Rightarrow> ps)
      in if parts = [] then
           bnd (emit (LogError (''Letter '' @ kl_key letter @ '' has no parts''))) (\<lambda>_. ret 0)
         else process_parts api ds letter (1 < length parts) parts 0 0)"

definition letter_of :: "string \<Rightarrow> letter_data \<Rightarrow> KivraLetter" where
  "letter_of letter_key letter_data =
     \<lparr> kl_key = letter_key,
       kl_date = format_date
         (case ld_receivedAt letter_data of None \<Rightarrow> Some ''unknown_date'' | Some d \<Rightarrow> Some d),
       kl_sender_name =
         (case ld_sender letter_data of
            None \<Rightarrow> ''unknown_sender''
          | Some sd \<Rightarrow> (case nr_name sd of None \<Rightarrow> ''unknown_sender'' | Some n \<Rightarrow> n)),
       kl_part_index = None \<rparr>"

text \<open>The JSON-metadata fingerprint of a list entry: \<^verbatim>\<open>letter.get_metadata()\<close>.\<close>

definition letter_fingerprint :: "letter_data \<Rightarrow> metadata" where
  "letter_fingerprint letter_data =
     letter_get_metadata (letter_of (the (ld_key letter_data)) letter_data) ''application/json''"

text \<open>The \<^verbatim>\<open>try\<close> block of \<^verbatim>\<open>_process_letter\<close>, then the block with its handler.\<close>

definition letter_body ::
  "api_client \<Rightarrow> 's document_store \<Rightarrow> letter_data \<Rightarrow> int option \<Rightarrow> (int option, 's) action" where
  "letter_body api ds ld c =
       (bnd (remote (GetContentDetails (the (ld_key ld))) (get_content_details api (the (ld_key ld))))
         (\<lambda>content_data.
            bnd (store_call
                   (ReportMetadata (LetterDetails ld content_data) (letter_fingerprint ld))
                   (report_metadata ds (LetterDetails ld content_data) (letter_fingerprint ld)))
              (\<lambda>_.
                 bnd (process_letter_parts api ds (letter_of (the (ld_key ld)) ld) content_data)
                   (\<lambda>parts_stored. if 0 < parts_stored then increment c else ret c))))"

definition letter_guarded ::
  "api_client \<Rightarrow> 's document_store \<Rightarrow> letter_data \<Rightarrow> int option \<Rightarrow> (int option, 's) action" where
  "letter_guarded api ds ld c =
     try_except (letter_body api ds ld c)
       (\<lambda>e. bnd (emit (LogError (''Error processing letter '' @ the (ld_key ld) @ '': '' @ str_exn e)))
              (\<lambda>_. ret c))"

definition process_letter ::
  "api_client \<Rightarrow> 's document_store \<Rightarrow> letter_data \<Rightarrow> int option \<Rightarrow> (int option, 's) action" where
  "process_letter api ds letter_data letters_stored =
     (if \<not> truthy (ld_key letter_data) then
        bnd (emit (LogWarning ''Letter missing key, skipping'')) (\<lambda>_. ret None)
      else
        bnd (store_call (Exists (letter_fingerprint letter_data))
               (exists_doc ds (letter_fingerprint letter_data)))
          (\<lambda>found.
             if found then ret letters_stored
             else letter_guarded api ds letter_data letters_stored))"

primrec process_letters ::
  "api_client \<Rightarrow> 's document_store \<Rightarrow> letter_data list \<Rightarrow> int option \<Rightarrow> (int option, 's) action" where
  "process_letters api ds [] letters_stored = ret letters_stored"
| "process_letters api ds (letter_data # rest) letters_stored =
     bnd (process_letter api ds letter_data letters_stored) (process_letters api ds rest)"

text \<open>\<^verbatim>\<open>page_content.get('list', [])\<close> and \<^verbatim>\<open>page_content.get('existsMore', False)\<close>.\<close>

definition page_letters_of :: "contents_page \<Rightarrow> letter_data list" where
  "page_letters_of page_content = (case cp_list page_content of None \<Rightarrow> [] | Some l \<Rightarrow> l)"

definition exists_more_of :: "contents_page \<Rightarrow> bool" where
  "exists_more_of page_content = (case cp_existsMore page_content of None \<Rightarrow> False | Some b \<Rightarrow> b)"

text \<open>
  The \<^verbatim>\<open>while True\<close> loop of the list phase. The server decides whether it ends, so the
  loop is a partial function: \<open>None\<close> is a loop that never returns.
\<close>

partial_function (option) list_letters ::
  "api_client \<Rightarrow> string option \<Rightarrow> letter_data list \<Rightarrow> 's world
     \<Rightarrow> ((exn + letter_data list) \<times> 's world) option" where
  "list_letters api after all_letters w =
     (case remote (QueryContentList after) (content_list api after) w of
        (Inl e, w') \<Rightarrow> Some (Inl e, w')
      | (Inr page_content, w') \<Rightarrow>
          (let page_letters = page_letters_of page_content;
               all_letters' = all_letters @ page_letters;
               exists_more = exists_more_of page_content
           in if \<not> exists_more \<or> page_letters = [] then Some (Inr all_letters', w')
              else (case ld_key (last page_letters) of
                      None \<Rightarrow> Some (Inl (KeyError ''key''), w')
                    | Some k \<Rightarrow> list_letters api (Some k) all_letters' w')))"

definition letters_failed :: "exn \<Rightarrow> (statistics, 's) action" where
  "letters_failed e =
     bnd (emit (LogError (''Error fetching letters: '' @ str_exn e))) (\<lambda>_. raise e)"

text \<open>What \<^verbatim>\<open>fetch_letters\<close> does once the listing is accumulated.\<close>

definition letters_listed ::
  "api_client \<Rightarrow> 's document_store \<Rightarrow> int option \<Rightarrow> letter_data list \<Rightarrow> (statistics, 's) action" where
  "letters_listed api ds max_count all_letters =
     (let total_letters = int (length all_letters)
      in bnd (store_call (ReportListing ''letters'' (LettersListing all_letters))
                (report_listing ds ''letters'' (LettersListing all_letters)))
           (\<lambda>_.
              let all_letters = limit_to max_count all_letters
              in bnd (process_letters api ds all_letters (Some 0))
                   (\<lambda>letters_stored.
                      ret \<lparr> total = total_letters,
                            fetched = int (length (limit_to max_count all_letters)),
                            stored = letters_stored \<rparr>)))"

definition fetch_letters ::
  "api_client \<Rightarrow> 's document_store \<Rightarrow> int option \<Rightarrow> 's world
     \<Rightarrow> ((exn + statistics) \<times> 's world) option" where
  "fetch_letters api ds max_count w =
     (case list_letters api None [] w of
        None \<Rightarrow> None
      | Some (Inl e, w') \<Rightarrow> Some (letters_failed e w')
      | Some (Inr all_letters, w') \<Rightarrow>
          Some (try_except (letters_listed api ds max_count all_letters) letters_failed w'))"

section \<open>Base64 (\<^verbatim>\<open>base64\<close> of the Python library, as \<^verbatim>\<open>src/kivra/auth.py\<close> calls it)\<close>

text \<open>Bytes are \<open>char\<close>s. The two alphabets of RFC 4648 differ in the digits 62 and 63.\<close>

definition b64_alphabet :: string where
  "b64_alphabet = ''ABCDEFGHIJKLMNOPQRSTUVWXYZabcdefghijklmnopqrstuvwxyz0123456789+/''"

definition urlsafe_alphabet :: string where
  "urlsafe_alphabet = ''ABCDEFGHIJKLMNOPQRSTUVWXYZabcdefghijklmnopqrstuvwxyz0123456789-_''"

fun encode_with :: "string \<Rightarrow> string \<Rightarrow> string" where
  "encode_with al [] = []"
| "encode_with al [a] =
     (let x = (of_char a :: nat)
      in [al ! (x div 4), al ! ((x mod 4) * 16), CHR ''='', CHR ''=''])"
| "encode_with al [a, b] =
     (let x = (of_char a :: nat); y = (of_char b :: nat)
      in [al ! (x div 4), al ! ((x mod 4) * 16 + y div 16), al ! ((y mod 16) * 4), CHR ''=''])"
| "encode_with al (a # b # c # rest) =
     (let x = (of_char a :: nat); y = (of_char b :: nat); z = (of_char c :: nat)
      in [al ! (x div 4), al ! ((x mod 4) * 16 + y div 16), al ! ((y mod 16) * 4 + z div 64),
          al ! (z mod 64)] @ encode_with al rest)"

definition urlsafe_b64encode :: "string \<Rightarrow> string" where
  "urlsafe_b64encode bs = encode_with urlsafe_alphabet bs"

text \<open>\<^verbatim>\<open>s.rstrip('=')\<close>.\<close>

definition rstrip_eq :: "string \<Rightarrow> string" where
  "rstrip_eq s = rev (dropWhile (\<lambda>c. c = CHR ''='') (rev s))"

text \<open>The digit of a character in an alphabet, if it has one.\<close>

fun index_of :: "char \<Rightarrow> string \<Rightarrow> nat option" where
  "index_of c [] = None"
| "index_of c (x # xs) = (if c = x then Some 0 else map_option Suc (index_of c xs))"

text \<open>
  \<^verbatim>\<open>base64.b64decode(s)\<close> with its defaults (standard alphabet, \<^verbatim>\<open>validate=False\<close>):
  characters outside the standard alphabet are discarded, so the URL-safe digits
  \<^verbatim>\<open>-\<close> and \<^verbatim>\<open>_\<close> are dropped. The state is the position in the current group of four
  digits, the bits left over from the previous digit, and the padding characters seen.
\<close>

fun a2b_base64 :: "string \<Rightarrow> nat \<Rightarrow> nat \<Rightarrow> nat \<Rightarrow> string \<Rightarrow> exn + string" where
  "a2b_base64 [] quad_pos leftchar pads out =
     (if quad_pos = 0 then Inr out
      else if quad_pos = 1 then
        Inl (ValueError ''Invalid base64-encoded string: number of data characters cannot be 1 more than a multiple of 4'')
      else Inl (ValueError ''Incorrect padding''))"
| "a2b_base64 (c # cs) quad_pos leftchar pads out =
     (if c = CHR ''='' then
        (if 2 \<le> quad_pos \<and> 4 \<le> quad_pos + (pads + 1) then Inr out
         else a2b_base64 cs quad_pos leftchar (if 2 \<le> quad_pos then pads + 1 else pads) out)
      else
        (case index_of c b64_alphabet of
           None \<Rightarrow> a2b_base64 cs quad_pos leftchar pads out
         | Some this_ch \<Rightarrow>
             if quad_pos = 0 then a2b_base64 cs 1 this_ch 0 out
             else if quad_pos = 1 then
               a2b_base64 cs 2 (this_ch mod 16) 0 (out @ [char_of (leftchar * 4 + this_ch div 16)])
             else if quad_pos = 2 then
               a2b_base64 cs 3 (this_ch mod 4) 0 (out @ [char_of (leftchar * 16 + this_ch div 4)])
             else a2b_base64 cs 0 0 0 (out @ [char_of (leftchar * 64 + this_ch)])))"

definition b64decode :: "string \<Rightarrow> exn + string" where
  "b64decode s =
     (if \<exists>c \<in> set s. 128 \<le> (of_char c :: nat) then
        Inl (ValueError ''string argument should contain only ASCII characters'')
      else a2b_base64 s 0 0 0 [])"

section \<open>The authenticator (\<^verbatim>\<open>src/kivra/auth.py\<close>)\<close>

record auth_data =
  ad_qr_code :: "string option"
  ad_next_poll_url :: "string option"
  ad_code :: "string option"

record token_info =
  ti_access_token :: "string option"
  ti_id_token :: "string option"

record jwt_data =
  jd_kivra_user_id :: "string option"

record credentials =
  cr_access_token :: "string option"
  cr_actor_key :: string
  cr_jwt_data :: jwt_data

text \<open>\<^verbatim>\<open>sys.exit(msg)\<close> ends the run; an exception no handler catches ends it too.\<close>

datatype abort = SystemExit string | Raised exn

datatype auth_event =
    HttpGet string
  | HttpPost string
  | Sleep nat
  | SaveQrImage string string
  | DisplayQrCode string
  | ReportAuthenticationSuccess
  | RemoveFile string
  | AuthLogError string

text \<open>
  What the authenticator depends on: the HTTP session, the interaction provider, and
  the library functions it calls (\<^verbatim>\<open>secrets.token_urlsafe\<close>, \<^verbatim>\<open>hashlib.sha256\<close>,
  \<^verbatim>\<open>qrcode\<close>, \<^verbatim>\<open>json.loads\<close>). \<open>poll n url\<close> is the \<^verbatim>\<open>'status'\<close> entry of the
  answer to the \<open>n\<close>-th poll; \<open>authorize\<close> and \<open>token\<close> give the status code and the
  JSON body. Log messages are shortened to their fixed text.
\<close>

record auth_env =
  temp_dir :: string
  session_get :: "string \<Rightarrow> exn + unit"
  token_urlsafe :: string
  sha256 :: "string \<Rightarrow> string"
  authorize :: "string \<Rightarrow> exn + nat \<times> auth_data"
  save_qr_image :: "string \<Rightarrow> string \<Rightarrow> exn + unit"
  display_qr_code :: "string \<Rightarrow> exn + unit"
  poll :: "nat \<Rightarrow> string \<Rightarrow> exn + string option"
  report_authentication_success :: "exn + unit"
  token :: "string \<Rightarrow> string \<Rightarrow> exn + nat \<times> token_info"
  json_loads :: "string \<Rightarrow> exn + jwt_data"

definition generate_code_challenge :: "auth_env \<Rightarrow> string \<Rightarrow> string" where
  "generate_code_challenge env code_verifier =
     rstrip_eq (urlsafe_b64encode (sha256 env code_verifier))"

text \<open>\<^verbatim>\<open>s.split(sep)\<close> for a one-character separator.\<close>

fun split_on :: "char \<Rightarrow> string \<Rightarrow> string list" where
  "split_on sep [] = [[]]"
| "split_on sep (c # cs) =
     (if c = sep then [] # split_on sep cs
      else (case split_on sep cs of [] \<Rightarrow> [[c]] | p # ps \<Rightarrow> (c # p) # ps))"

text \<open>The payload of the identity token: lines 186 to 194 of \<^verbatim>\<open>auth.py\<close>.\<close>

definition restore_padding :: "string \<Rightarrow> string" where
  "restore_padding seg = seg @ replicate (4 - length seg mod 4) (CHR ''='')"

definition decode_segment :: "string \<Rightarrow> exn + string" where
  "decode_segment seg = b64decode (restore_padding seg)"

definition exchange_token ::
  "auth_env \<Rightarrow> string \<Rightarrow> string \<Rightarrow> auth_event list \<Rightarrow> (abort + credentials) \<times> auth_event list" where
  "exchange_token env auth_code code_verifier tr =
     (let tr1 = tr @ [HttpPost ''https://app.api.kivra.com/v2/oauth2/token'']
      in case token env auth_code code_verifier of
           Inl e \<Rightarrow> (Inl (Raised e), tr1)
         | Inr (status_code, token_info) \<Rightarrow>
             if status_code \<noteq> 200 then
               (Inl (SystemExit ''Token retrieval failed''), tr1 @ [AuthLogError ''Failed to fetch token''])
             else
               (case ti_id_token token_info of
                  None \<Rightarrow> (Inl (Raised (AttributeError ''NoneType object has no attribute split'')), tr1)
                | Some id_token \<Rightarrow>
                    let id_token_parts = split_on (CHR ''.'') id_token
                    in if length id_token_parts < 2 then
                         (Inl (SystemExit ''Could not parse id_token''),
                          tr1 @ [AuthLogError ''Invalid id_token structure''])
                       else
                         (case decode_segment (id_token_parts ! 1) of
                            Inl e \<Rightarrow> (Inl (Raised e), tr1)
                          | Inr jwt_payload \<Rightarrow>
                              (case json_loads env jwt_payload of
                                 Inl e \<Rightarrow> (Inl (Raised e), tr1)
                               | Inr jwt_data \<Rightarrow>
                                   if \<not> truthy (jd_kivra_user_id jwt_data) then
                                     (Inl (SystemExit ''Missing kivra_user_id''),
                                      tr1 @ [AuthLogError ''Could not find kivra_user_id in token''])
                                   else
                                     (Inr \<lparr> cr_access_token = ti_access_token token_info,
                                            cr_actor_key = the (jd_kivra_user_id jwt_data),
                                            cr_jwt_data = jwt_data \<rparr>, tr1)))))"

text \<open>The branch of the poll loop for \<^verbatim>\<open>status == 'complete'\<close>.\<close>

definition complete_auth ::
  "auth_env \<Rightarrow> string \<Rightarrow> string \<Rightarrow> auth_event list \<Rightarrow> (abort + credentials) \<times> auth_event list" where
  "complete_auth env auth_code code_verifier tr =
     (let tr1 = tr @ [ReportAuthenticationSuccess]
      in case report_authentication_success env of
           Inl e \<Rightarrow> (Inl (Raised e), tr1)
         | Inr _ \<Rightarrow> exchange_token env auth_code code_verifier tr1)"

text \<open>\<^verbatim>\<open>f"https://app.api.kivra.com{next_poll_url}"\<close>: \<^verbatim>\<open>None\<close> is formatted as \<^verbatim>\<open>None\<close>.\<close>

definition poll_url :: "string option \<Rightarrow> string" where
  "poll_url next_poll_url =
     ''https://app.api.kivra.com'' @ (case next_poll_url of None \<Rightarrow> ''None'' | Some u \<Rightarrow> u)"

text \<open>
  The \<^verbatim>\<open>while True\<close> loop of \<^verbatim>\<open>_poll_for_auth\<close>; \<open>n\<close> is the number of polls made
  so far. \<open>None\<close> is a loop that never returns.
\<close>

partial_function (option) poll_for_auth ::
  "auth_env \<Rightarrow> string option \<Rightarrow> string \<Rightarrow> string \<Rightarrow> nat \<Rightarrow> auth_event list
     \<Rightarrow> ((abort + credentials) \<times> auth_event list) option" where
  "poll_for_auth env next_poll_url auth_code code_verifier n tr =
     (let tr1 = tr @ [Sleep 5, HttpGet (poll_url next_poll_url)]
      in case poll env n (poll_url next_poll_url) of
           Inl e \<Rightarrow> Some (Inl (Raised e), tr1)
         | Inr status \<Rightarrow>
             if status = Some ''complete'' then Some (complete_auth env auth_code code_verifier tr1)
             else if status = Some ''pending'' then
               poll_for_auth env next_poll_url auth_code code_verifier (Suc n) tr1
             else
               Some (Inl (SystemExit ''BankID authentication failed''),
                     tr1 @ [AuthLogError ''Error during polling'']))"

definition qr_path :: "auth_env \<Rightarrow> string" where
  "qr_path env = temp_dir env @ ''/kivra_qr.png''"

text \<open>
  \<^verbatim>\<open>authenticate\<close>, after \<^verbatim>\<open>_initialize_oauth2\<close> has returned \<open>auth_data\<close>: the
  check of the response, the QR code, the poll loop, the clean-up.
\<close>

definition authenticate_with ::
  "auth_env \<Rightarrow> string \<Rightarrow> auth_data \<Rightarrow> auth_event list
     \<Rightarrow> ((abort + credentials) \<times> auth_event list) option" where
  "authenticate_with env code_verifier auth_data tr =
     (let qr_code = ad_qr_code auth_data;
          next_poll_url = ad_next_poll_url auth_data;
          auth_code = ad_code auth_data
      in if \<not> truthy qr_code \<or> \<not> truthy auth_code then
           Some (Inl (SystemExit ''Authentication initialization failed''),
                 tr @ [AuthLogError ''Missing QR code or auth code in response''])
         else
           (case save_qr_image env (the qr_code) (qr_path env) of
              Inl e \<Rightarrow> Some (Inl (Raised e), tr @ [SaveQrImage (the qr_code) (qr_path env)])
            | Inr _ \<Rightarrow>
                (case display_qr_code env (qr_path env) of
                   Inl e \<Rightarrow>
                     Some (Inl (Raised e),
                           tr @ [SaveQrImage (the qr_code) (qr_path env), DisplayQrCode (qr_path env)])
                 | Inr _ \<Rightarrow>
                     (case poll_for_auth env next_poll_url (the auth_code) code_verifier 0
                             (tr @ [SaveQrImage (the qr_code) (qr_path env), DisplayQrCode (qr_path env)]) of
                        None \<Rightarrow> None
                      | Some (Inl a, tr') \<Rightarrow> Some (Inl a, tr')
                      | Some (Inr token_info, tr') \<Rightarrow>
                          Some (Inr token_info, tr' @ [RemoveFile (qr_path env)])))))"

definition authenticate ::
  "auth_env \<Rightarrow> string \<Rightarrow> auth_event list \<Rightarrow> ((abort + credentials) \<times> auth_event list) option" where
  "authenticate env ssn tr =
     (let tr1 = tr @ [HttpGet ''https://app.kivra.com/'']
      in case session_get env ''https://app.kivra.com/'' of
           Inl e \<Rightarrow> Some (Inl (Raised e), tr1)
         | Inr _ \<Rightarrow>
             let code_verifier = token_urlsafe env;
                 code_challenge = generate_code_challenge env code_verifier;
                 tr2 = tr1 @ [HttpPost ''https://app.api.kivra.com/v2/oauth2/authorize'']
             in (case authorize env code_challenge of
                   Inl e \<Rightarrow> Some (Inl (Raised e), tr2)
                 | Inr (status_code, auth_data) \<Rightarrow>
                     if status_code \<noteq> 201 \<and> status_code \<noteq> 202 then
                       Some (Inl (SystemExit ''Could not initialize OAuth2''),
                             tr2 @ [AuthLogError ''OAuth2 authorization failed''])
                     else authenticate_with env code_verifier auth_data tr2))"

section \<open>The listing snapshot of the shipped stores (\<^verbatim>\<open>src/storage\<close>)\<close>





section \<open>Observing a run\<close>

text \<open>
  \<open>emits_only P m\<close>: whatever the world, \<open>m\<close> keeps the trace it finds and appends
  only events that satisfy \<open>P\<close>.
\<close>

definition emits_only :: "(event \<Rightarrow> bool) \<Rightarrow> ('a, 's) action \<Rightarrow> bool" where
  "emits_only P m \<longleftrightarrow> (\<forall>w. \<exists>evs. trace (snd (m w)) = trace w @ evs \<and> list_all P evs)"


fun is_stored :: "event \<Rightarrow> bool" where
  "is_stored (Store c md r) = (r = Inr True)"
| "is_stored _ = False"

text \<open>The events between a world and a later one.\<close>

definition new_events :: "'s world \<Rightarrow> 's world \<Rightarrow> event list" where
  "new_events w w' = drop (length (trace w)) (trace w')"


text \<open>
  The count of fetched items as the specification words it:
  \<^verbatim>\<open>min(len(listing), max_count or len(listing))\<close>, where \<^verbatim>\<open>max_count or n\<close> is \<open>n\<close> when
  \<^verbatim>\<open>max_count\<close> is \<^verbatim>\<open>None\<close> or 0.
\<close>

definition spec_fetched :: "int \<Rightarrow> int option \<Rightarrow> int" where
  "spec_fetched n max_count =
     min n (case max_count of None \<Rightarrow> n | Some m \<Rightarrow> if m = 0 then n else m)"



section \<open>Example collaborators\<close>

text \<open>
  A store that keeps, in order, the metadata of everything handed to \<^verbatim>\<open>report_metadata\<close>
  and \<^verbatim>\<open>store\<close>, and answers \<^verbatim>\<open>exists\<close> from it; and a small remote account with two
  receipts and three letters on two pages.
\<close>

definition memory_store :: "metadata list document_store" where
  "memory_store =
     \<lparr> report_listing = (\<lambda>doc_type l s. (Inr (), s)),
       exists_doc = (\<lambda>md s. (Inr (md \<in> set s), s)),
       store = (\<lambda>c md s. (Inr True, s @ [md])),
       report_metadata = (\<lambda>d md s. (Inr True, s @ [md])) \<rparr>"

definition empty_world :: "metadata list world" where
  "empty_world = \<lparr> store_state = [], trace = [] \<rparr>"

definition receipt_a :: receipt_data where
  "receipt_a = \<lparr> rd_key = Some ''r1'', rd_purchaseDate = Some ''2024-05-01T10:00:00Z'',
                 rd_store = Some \<lparr> nr_name = Some ''Shop'' \<rparr> \<rparr>"

definition receipt_no_key :: receipt_data where
  "receipt_no_key = \<lparr> rd_key = None, rd_purchaseDate = None, rd_store = None \<rparr>"

definition letter_a :: letter_data where
  "letter_a = \<lparr> ld_key = Some ''l1'', ld_receivedAt = Some ''2024-05-02T08:00:00Z'',
                ld_sender = Some \<lparr> nr_name = Some ''Bank'' \<rparr> \<rparr>"

definition letter_b :: letter_data where
  "letter_b = \<lparr> ld_key = Some ''l2'', ld_receivedAt = None, ld_sender = None \<rparr>"

definition letter_no_key :: letter_data where
  "letter_no_key = \<lparr> ld_key = None, ld_receivedAt = None, ld_sender = None \<rparr>"

definition four_parts :: "letter_part list" where
  "four_parts =
     [\<lparr> lp_content_type = Some ''text/plain'', lp_body = Some ''hello'', lp_key = None \<rparr>,
      \<lparr> lp_content_type = Some ''application/pdf'', lp_body = None, lp_key = Some ''f1'' \<rparr>,
      \<lparr> lp_content_type = Some ''text/html'', lp_body = Some ''<p>hello</p>'', lp_key = None \<rparr>,
      \<lparr> lp_content_type = Some ''application/x-unknown'', lp_body = None, lp_key = None \<rparr>]"

definition example_api :: api_client where
  "example_api =
     \<lparr> actor_key = ''u1'',
       receipts_query = Inr \<lparr> rv_list = Some [receipt_no_key, receipt_a], rv_total = Some 2 \<rparr>,
       receipt_details = (\<lambda>k. Inr ''{}''),
       get_pdf = (\<lambda>url. Inr ''%PDF''),
       content_list =
         (\<lambda>after.
            if after = None then
              Inr \<lparr> cp_list = Some [letter_a, letter_b], cp_existsMore = Some True, cp_total = Some 3 \<rparr>
            else if after = Some ''l2'' then
              Inr \<lparr> cp_list = Some [letter_no_key], cp_existsMore = Some False, cp_total = Some 3 \<rparr>
            else Inl (Exception ''GraphQL query failed: 400'')),
       get_content_details = (\<lambda>k. Inr \<lparr> cd_parts = Some four_parts \<rparr>),
       get_content_file = (\<lambda>k file_key. Inr ''%PDF'') \<rparr>"

text \<open>The same store with \<^verbatim>\<open>exists\<close> answering \<^verbatim>\<open>True\<close> whatever it is asked.\<close>

definition always_exists_store :: "metadata list document_store" where
  "always_exists_store = memory_store\<lparr> exists_doc := (\<lambda>md s. (Inr True, s)) \<rparr>"

text \<open>An account whose only page lists one letter and reports a total of seven.\<close>

definition one_of_seven_api :: api_client where
  "one_of_seven_api =
     example_api\<lparr> content_list :=
       (\<lambda>after. Inr \<lparr> cp_list = Some [letter_a], cp_existsMore = Some False, cp_total = Some 7 \<rparr>) \<rparr>"

text \<open>The example account with a file endpoint that fails, and a PDF part without a key.\<close>

definition failing_file_api :: api_client where
  "failing_file_api =
     example_api\<lparr> get_content_file :=
       (\<lambda>k file_key. Inl (Exception ''Failed to get content file: 500'')) \<rparr>"

definition pdf_part_no_key :: letter_part where
  "pdf_part_no_key = \<lparr> lp_content_type = Some ''application/pdf'', lp_body = None, lp_key = None \<rparr>"





text \<open>
  A sign-in that succeeds at the fourth poll: the service answers \<^verbatim>\<open>pending\<close> three
  times and then \<^verbatim>\<open>complete\<close>; a request to any other host cannot be connected. The
  identity token carries the payload \<^verbatim>\<open>{"kivra_user_id":"u1"}\<close>.
\<close>

definition example_payload :: string where
  "example_payload =
     [CHR ''{'', CHR 0x22] @ ''kivra_user_id'' @ [CHR 0x22, CHR '':'', CHR 0x22] @ ''u1''
       @ [CHR 0x22, CHR ''}'']"

definition example_env :: auth_env where
  "example_env =
     \<lparr> temp_dir = ''/tmp'',
       session_get = (\<lambda>url. Inr ()),
       token_urlsafe = ''verifier'',
       sha256 = (\<lambda>s. ''0123456789abcdef0123456789abcdef''),
       authorize = (\<lambda>code_challenge.
          Inr (201, \<lparr> ad_qr_code = Some ''bankid.1.2.3'',
                      ad_next_poll_url = Some ''/v2/oauth2/poll/1'',
                      ad_code = Some ''c0de'' \<rparr>)),
       save_qr_image = (\<lambda>qr_code path. Inr ()),
       display_qr_code = (\<lambda>path. Inr ()),
       poll = (\<lambda>n url.
          if url = ''https://app.api.kivra.com/v2/oauth2/poll/1'' then
            Inr (Some (if n < 3 then ''pending'' else ''complete''))
          else Inl (Exception ''Failed to establish a new connection'')),
       report_authentication_success = Inr (),
       token = (\<lambda>auth_code code_verifier.
          Inr (200, \<lparr> ti_access_token = Some ''at'',
                      ti_id_token = Some ''eyJhbGciOiJub25lIn0.eyJraXZyYV91c2VyX2lkIjoidTEifQ.sig'' \<rparr>)),
       json_loads = (\<lambda>s.
          if s = example_payload then Inr \<lparr> jd_kivra_user_id = Some ''u1'' \<rparr>
          else Inl (ValueError ''Expecting value'')) \<rparr>"

text \<open>An answer to the authorization request that lacks the polling URL.\<close>

definition no_poll_url :: auth_data where
  "no_poll_url =
     \<lparr> ad_qr_code = Some ''bankid.1.2.3'', ad_next_poll_url = None, ad_code = Some ''c0de'' \<rparr>"

text \<open>
  The payload \<^verbatim>\<open>{"kivra_user_id":"u1","iss":"https://kivra.com/?v=2"}\<close> of an identity
  token, and a token response that carries it.
\<close>

definition quoted :: "string \<Rightarrow> string" where
  "quoted s = CHR 0x22 # s @ [CHR 0x22]"

definition iss_payload :: string where
  "iss_payload =
     ''{'' @ quoted ''kivra_user_id'' @ '':'' @ quoted ''u1'' @ '','' @ quoted ''iss'' @ '':''
       @ quoted ''https://kivra.com/?v=2'' @ ''}''"

definition iss_env :: auth_env where
  "iss_env =
     example_env\<lparr>
       token := (\<lambda>auth_code code_verifier.
          Inr (200, \<lparr> ti_access_token = Some ''at'',
                      ti_id_token = Some (''eyJhbGciOiJub25lIn0.''
                        @ rstrip_eq (urlsafe_b64encode iss_payload) @ ''.sig'') \<rparr>)),
       json_loads := (\<lambda>s.
          if s = iss_payload then Inr \<lparr> jd_kivra_user_id = Some ''u1'' \<rparr>
          else Inl (ValueError ''Expecting value'')) \<rparr>"

section \<open>Reasoning about actions\<close>

lemma bnd_Inl: "m w = (Inl e, w') \<Longrightarrow> bnd m f w = (Inl e, w')"
  by (simp add: bnd_def)

lemma bnd_Inr: "m w = (Inr x, w') \<Longrightarrow> bnd m f w = f x w'"
  by (simp add: bnd_def)

lemma try_except_Inl: "m w = (Inl e, w') \<Longrightarrow> try_except m h w = h e w'"
  by (simp add: try_except_def)

lemma try_except_Inr: "m w = (Inr x, w') \<Longrightarrow> try_except m h w = (Inr x, w')"
  by (simp add: try_except_def)

lemma store_call_eq:
  "f (store_state w) = (r, s') \<Longrightarrow>
     store_call ev f w = (r, w\<lparr>store_state := s', trace := trace w @ [ev r]\<rparr>)"
  by (simp add: store_call_def)

lemma emits_onlyD:
  "emits_only P m \<Longrightarrow> \<exists>evs. trace (snd (m w)) = trace w @ evs \<and> list_all P evs"
  by (simp add: emits_only_def)

lemma emits_only_ret: "emits_only P (ret x)"
  by (simp add: emits_only_def ret_def)

lemma emits_only_raise: "emits_only P (raise e)"
  by (simp add: emits_only_def raise_def)

lemma emits_only_emit: "P ev \<Longrightarrow> emits_only P (emit ev)"
  by (simp add: emits_only_def emit_def)

lemma emits_only_remote: "P ev \<Longrightarrow> emits_only P (remote ev r)"
  by (simp add: emits_only_def remote_def)

lemma emits_only_store_call: "(\<And>r. P (ev r)) \<Longrightarrow> emits_only P (store_call ev f)"
  by (simp add: emits_only_def store_call_def split: prod.splits)

lemma emits_only_bnd:
  assumes m: "emits_only P m" and f: "\<And>x. emits_only P (f x)"
  shows "emits_only P (bnd m f)"
  unfolding emits_only_def
proof
  fix w
  obtain r w1 where mw: "m w = (r, w1)" by (cases "m w")
  from emits_onlyD[OF m, of w] mw obtain evs1
    where e1: "trace w1 = trace w @ evs1" "list_all P evs1" by auto
  show "\<exists>evs. trace (snd (bnd m f w)) = trace w @ evs \<and> list_all P evs"
  proof (cases r)
    case (Inl e)
    with mw e1 show ?thesis by (auto simp: bnd_def)
  next
    case (Inr x)
    from emits_onlyD[OF f, of x w1] obtain evs2
      where e2: "trace (snd (f x w1)) = trace w1 @ evs2" "list_all P evs2" by auto
    with Inr mw e1 have "trace (snd (bnd m f w)) = trace w @ (evs1 @ evs2) \<and> list_all P (evs1 @ evs2)"
      by (simp add: bnd_def)
    then show ?thesis by blast
  qed
qed

lemma emits_only_try_except:
  assumes m: "emits_only P m" and h: "\<And>e. emits_only P (h e)"
  shows "emits_only P (try_except m h)"
  unfolding emits_only_def
proof
  fix w
  obtain r w1 where mw: "m w = (r, w1)" by (cases "m w")
  from emits_onlyD[OF m, of w] mw obtain evs1
    where e1: "trace w1 = trace w @ evs1" "list_all P evs1" by auto
  show "\<exists>evs. trace (snd (try_except m h w)) = trace w @ evs \<and> list_all P evs"
  proof (cases r)
    case (Inr x)
    with mw e1 show ?thesis by (auto simp: try_except_def)
  next
    case (Inl e)
    from emits_onlyD[OF h, of e w1] obtain evs2
      where e2: "trace (snd (h e w1)) = trace w1 @ evs2" "list_all P evs2" by auto
    with Inl mw e1 have "trace (snd (try_except m h w)) = trace w @ (evs1 @ evs2) \<and> list_all P (evs1 @ evs2)"
      by (simp add: try_except_def)
    then show ?thesis by blast
  qed
qed

lemma emits_only_if:
  "emits_only P m \<Longrightarrow> emits_only P n \<Longrightarrow> emits_only P (if b then m else n)"
  by simp

lemmas emits_only_intros =
  emits_only_ret emits_only_raise emits_only_emit emits_only_remote emits_only_store_call
  emits_only_bnd emits_only_try_except emits_only_if

lemma increment_emits: "emits_only P (increment c)"
  by (cases c) (simp_all add: increment_def emits_only_intros)






section \<open>One item\<close>

lemma process_letter_no_key:
  "\<not> truthy (ld_key ld) \<Longrightarrow>
     process_letter api ds ld c w =
       (Inr None, w\<lparr>trace := trace w @ [LogWarning ''Letter missing key, skipping'']\<rparr>)"
  by (simp add: process_letter_def bnd_def emit_def ret_def)


lemma process_letter_exists_raises:
  assumes "truthy (ld_key ld)"
    and "exists_doc ds (letter_fingerprint ld) (store_state w) = (Inl e, s')"
  shows "process_letter api ds ld c w =
           (Inl e, w\<lparr>store_state := s', trace := trace w @ [Exists (letter_fingerprint ld) (Inl e)]\<rparr>)"
  using assms
  by (simp add: process_letter_def letter_fingerprint_def Let_def bnd_def store_call_def)


lemma process_letter_exists_true:
  assumes "truthy (ld_key ld)"
    and "exists_doc ds (letter_fingerprint ld) (store_state w) = (Inr True, s')"
  shows "process_letter api ds ld c w =
           (Inr c, w\<lparr>store_state := s', trace := trace w @ [Exists (letter_fingerprint ld) (Inr True)]\<rparr>)"
  using assms
  by (simp add: process_letter_def letter_fingerprint_def Let_def bnd_def store_call_def ret_def)


lemma process_letter_exists_false:
  assumes "truthy (ld_key ld)"
    and "exists_doc ds (letter_fingerprint ld) (store_state w) = (Inr False, s')"
  shows "process_letter api ds ld c w =
           letter_guarded api ds ld c
             (w\<lparr>store_state := s', trace := trace w @ [Exists (letter_fingerprint ld) (Inr False)]\<rparr>)"
  using assms
  by (simp add: process_letter_def letter_guarded_def letter_fingerprint_def Let_def bnd_def
      letter_body_def store_call_def)



text \<open>The guarded block never raises, and returns the counter or its successor.\<close>

lemma try_log_returns:
  "\<exists>c' w'. try_except m (\<lambda>e. bnd (emit (LogError (msg e))) (\<lambda>_. ret c)) w = (Inr c', w')"
  by (cases "m w") (auto simp: try_except_def bnd_def emit_def ret_def split: sum.splits)


lemma letter_guarded_returns: "\<exists>c' w'. letter_guarded api ds ld c w = (Inr c', w')"
  unfolding letter_guarded_def by (rule try_log_returns)

lemma guarded_counter:
  assumes body: "\<And>r w2. m w = (Inr r, w2) \<Longrightarrow> r = c \<or> (\<exists>n. c = Some n \<and> r = Some (n + 1))"
    and res: "try_except m (\<lambda>e. bnd (emit (LogError (msg e))) (\<lambda>_. ret c)) w = (Inr c', w')"
  shows "c' = c \<or> (\<exists>n. c = Some n \<and> c' = Some (n + 1))"
proof (cases "m w")
  case (Pair r w1)
  show ?thesis
  proof (cases r)
    case (Inl e)
    with Pair res show ?thesis by (simp add: try_except_def bnd_def emit_def ret_def)
  next
    case (Inr x)
    with Pair res have "c' = x" by (simp add: try_except_def)
    with body Pair Inr show ?thesis by simp
  qed
qed

lemma bump_counter:
  "(if b then increment c else ret c) w1 = (Inr r, w2) \<Longrightarrow>
     r = c \<or> (\<exists>n. c = Some n \<and> r = Some (n + 1))"
  by (cases c) (auto simp: increment_def ret_def raise_def split: if_splits)

lemma bnd_InrD:
  "bnd m f w = (Inr r, w') \<Longrightarrow> \<exists>x w1. m w = (Inr x, w1) \<and> f x w1 = (Inr r, w')"
  by (cases "m w") (auto simp: bnd_def split: sum.splits)


lemma letter_body_counter:
  assumes "letter_body api ds ld c w = (Inr r, w2)"
  shows "r = c \<or> (\<exists>n. c = Some n \<and> r = Some (n + 1))"
proof -
  from assms obtain k wa where "(if 0 < (k::int) then increment c else ret c) wa = (Inr r, w2)"
    unfolding letter_body_def by (blast dest!: bnd_InrD)
  then show ?thesis by (rule bump_counter)
qed


lemma letter_guarded_counter:
  assumes "letter_guarded api ds ld c w = (Inr c', w')"
  shows "c' = c \<or> (\<exists>n. c = Some n \<and> c' = Some (n + 1))"
  by (rule guarded_counter[OF letter_body_counter assms[unfolded letter_guarded_def]])

section \<open>The counter\<close>


lemma process_letter_counter:
  assumes "process_letter api ds ld c w = (Inr c', w')"
  shows "c' = None \<or> c' = c \<or> (\<exists>n. c = Some n \<and> c' = Some (n + 1))"
proof (cases "truthy (ld_key ld)")
  case False
  with assms show ?thesis by (simp add: process_letter_no_key)
next
  case True
  obtain r s' where ex: "exists_doc ds (letter_fingerprint ld) (store_state w) = (r, s')"
    by (cases "exists_doc ds (letter_fingerprint ld) (store_state w)")
  show ?thesis
  proof (cases r)
    case (Inl e)
    with True ex assms show ?thesis by (simp add: process_letter_exists_raises)
  next
    case (Inr found)
    show ?thesis
    proof (cases found)
      case True
      with \<open>truthy (ld_key ld)\<close> ex Inr assms show ?thesis
        by (simp add: process_letter_exists_true)
    next
      case False
      with \<open>truthy (ld_key ld)\<close> ex Inr assms show ?thesis
        by (auto simp: process_letter_exists_false dest: letter_guarded_counter)
    qed
  qed
qed






lemma process_letter_returns:
  assumes "\<not> isl (fst (exists_doc ds (letter_fingerprint ld) (store_state w)))"
  shows "\<exists>c' w'. process_letter api ds ld c w = (Inr c', w')"
proof (cases "truthy (ld_key ld)")
  case False
  then show ?thesis by (simp add: process_letter_no_key)
next
  case True
  obtain r s' where ex: "exists_doc ds (letter_fingerprint ld) (store_state w) = (r, s')"
    by (cases "exists_doc ds (letter_fingerprint ld) (store_state w)")
  with assms obtain found where r: "r = Inr found" by (cases r) auto
  show ?thesis
  proof (cases found)
    case True
    with \<open>truthy (ld_key ld)\<close> ex r show ?thesis by (simp add: process_letter_exists_true)
  next
    case False
    with \<open>truthy (ld_key ld)\<close> ex r show ?thesis
      by (simp add: process_letter_exists_false letter_guarded_returns)
  qed
qed


lemma process_letters_return:
  assumes "\<And>md s. \<not> isl (fst (exists_doc ds md s))"
  shows "\<exists>c' w'. process_letters api ds lds c w = (Inr c', w')"
proof (induction lds arbitrary: c w)
  case Nil
  show ?case by (simp add: ret_def)
next
  case (Cons ld rest)
  from process_letter_returns[OF assms] obtain c1 w1
    where "process_letter api ds ld c w = (Inr c1, w1)" by blast
  with Cons.IH[of c1 w1] show ?case by (simp add: bnd_Inr)
qed

section \<open>A whole run\<close>

text \<open>The world after the list phase of the receipts, and after the listing was reported.\<close>

lemma fetch_receipts_listed:
  assumes "receipts_query api = Inr rv"
  shows "fetch_receipts api ds mc w =
           try_except (receipts_listed api ds mc rv) receipts_failed
             (w\<lparr>trace := trace w @ [QueryReceipts]\<rparr>)"
  using assms by (simp add: fetch_receipts_def try_except_def bnd_def remote_def)

lemma receipts_listed_reported:
  assumes "report_listing ds ''receipts'' (ReceiptsListing rv) (store_state w) = (Inr u, s')"
  shows "receipts_listed api ds mc rv w =
           bnd (process_receipts api ds (limit_to mc (receipt_list_of rv)) (Some 0))
             (\<lambda>c. ret \<lparr> total = total_of rv,
                        fetched = int (length (limit_to mc (receipt_list_of rv))),
                        stored = c \<rparr>)
             (w\<lparr>store_state := s',
                trace := trace w @ [ReportListing ''receipts'' (ReceiptsListing rv) (Inr u)]\<rparr>)"
  using assms by (simp add: receipts_listed_def Let_def bnd_def store_call_def)

lemma letters_listed_reported:
  assumes "report_listing ds ''letters'' (LettersListing all) (store_state w) = (Inr u, s')"
  shows "letters_listed api ds mc all w =
           bnd (process_letters api ds (limit_to mc all) (Some 0))
             (\<lambda>c. ret \<lparr> total = int (length all),
                        fetched = int (length (limit_to mc (limit_to mc all))),
                        stored = c \<rparr>)
             (w\<lparr>store_state := s',
                trace := trace w @ [ReportListing ''letters'' (LettersListing all) (Inr u)]\<rparr>)"
  using assms by (simp add: letters_listed_def Let_def bnd_def store_call_def)

lemma fetch_letters_listed:
  assumes "list_letters api None [] w = Some (Inr all, w1)"
  shows "fetch_letters api ds mc w = Some (try_except (letters_listed api ds mc all) letters_failed w1)"
  using assms by (simp add: fetch_letters_def)

section \<open>The example account\<close>

lemma example_list_letters:
  "list_letters example_api None [] empty_world =
     Some (Inr [letter_a, letter_b, letter_no_key],
           empty_world\<lparr>trace := [QueryContentList None, QueryContentList (Some ''l2'')]\<rparr>)"
  apply (subst list_letters.simps)
  apply (simp add: example_api_def empty_world_def remote_def page_letters_of_def
      exists_more_of_def letter_b_def)
  apply (subst list_letters.simps)
  apply (simp add: remote_def page_letters_of_def exists_more_of_def)
  done



lemma example_decode_segment:
  "decode_segment ''eyJraXZyYV91c2VyX2lkIjoidTEifQ'' = Inr example_payload"
  by code_simp

lemma example_split_on:
  "split_on (CHR ''.'') ''eyJhbGciOiJub25lIn0.eyJraXZyYV91c2VyX2lkIjoidTEifQ.sig''
     = [''eyJhbGciOiJub25lIn0'', ''eyJraXZyYV91c2VyX2lkIjoidTEifQ'', ''sig'']"
  by code_simp

lemma example_exchange_token:
  assumes "token env = token example_env" and "json_loads env = json_loads example_env"
  shows "exchange_token env ''c0de'' ''verifier'' tr =
     (Inr \<lparr> cr_access_token = Some ''at'', cr_actor_key = ''u1'',
            cr_jwt_data = \<lparr> jd_kivra_user_id = Some ''u1'' \<rparr> \<rparr>,
      tr @ [HttpPost ''https://app.api.kivra.com/v2/oauth2/token''])"
  by (simp add: exchange_token_def Let_def assms example_env_def example_split_on
      example_decode_segment)

section \<open>The existence check\<close>

lemma new_events_append: "trace w' = trace w @ evs \<Longrightarrow> new_events w w' = evs"
  by (simp add: new_events_def)









section \<open>The statistics of a run\<close>

lemma process_receipt_appends: "emits_only (\<lambda>_. True) (process_receipt api ds rd c)"
  unfolding process_receipt_def receipt_guarded_def receipt_body_def fetch_and_store_pdf_def
  by (intro emits_only_intros increment_emits) simp_all

lemma process_receipts_appends: "emits_only (\<lambda>_. True) (process_receipts api ds rds c)"
proof (induction rds arbitrary: c)
  case Nil
  show ?case by (simp add: emits_only_ret)
next
  case (Cons rd rest)
  show ?case by (simp, intro emits_only_bnd process_receipt_appends Cons.IH)
qed

lemma store_counted_appends: "emits_only (\<lambda>_. True) (store_counted ds c md n)"
  unfolding store_counted_def by (intro emits_only_intros) simp_all

lemma process_part_appends: "emits_only (\<lambda>_. True) (process_part api ds letter multi i part n)"
  unfolding process_part_def Let_def
  by (intro emits_only_intros store_counted_appends) simp_all

lemma process_parts_appends: "emits_only (\<lambda>_. True) (process_parts api ds letter multi parts i n)"
proof (induction parts arbitrary: i n)
  case Nil
  show ?case by (simp add: emits_only_ret)
next
  case (Cons part rest)
  show ?case by (simp, intro emits_only_bnd process_part_appends Cons.IH)
qed

lemma process_letter_appends: "emits_only (\<lambda>_. True) (process_letter api ds ld c)"
  unfolding process_letter_def letter_guarded_def letter_body_def process_letter_parts_def Let_def
  by (intro emits_only_intros increment_emits process_parts_appends) simp_all

lemma process_letters_appends: "emits_only (\<lambda>_. True) (process_letters api ds lds c)"
proof (induction lds arbitrary: c)
  case Nil
  show ?case by (simp add: emits_only_ret)
next
  case (Cons ld rest)
  show ?case by (simp, intro emits_only_bnd process_letter_appends Cons.IH)
qed

lemma length_limit_to:
  "0 \<le> m \<Longrightarrow> int (length (limit_to (Some m) xs)) = min (int (length xs)) m"
  by (auto simp: limit_to_def slice_to_def min_def)

lemma limit_to_twice: "0 \<le> m \<Longrightarrow> limit_to (Some m) (limit_to (Some m) xs) = limit_to (Some m) xs"
  by (simp add: limit_to_def slice_to_def)

lemma limit_to_None: "limit_to None xs = xs"
  by (simp add: limit_to_def)

lemma fetch_receipts_stats:
  assumes q: "receipts_query api = Inr rv"
    and r: "fetch_receipts api ds mc w = (Inr st, w')"
  shows "total st = total_of rv
         \<and> fetched st = int (length (limit_to mc (receipt_list_of rv)))
         \<and> (\<exists>evs. new_events w w'
                = QueryReceipts # ReportListing ''receipts'' (ReceiptsListing rv) (Inr ()) # evs)"
proof -
  let ?w0 = "w\<lparr>trace := trace w @ [QueryReceipts]\<rparr>"
  obtain x s' where rl: "report_listing ds ''receipts'' (ReceiptsListing rv) (store_state ?w0) = (x, s')"
    by (cases "report_listing ds ''receipts'' (ReceiptsListing rv) (store_state ?w0)")
  show ?thesis
  proof (cases x)
    case (Inl e)
    with q r rl show ?thesis
      by (simp add: fetch_receipts_listed receipts_listed_def Let_def receipts_failed_def
          try_except_def bnd_def store_call_def emit_def raise_def)
  next
    case (Inr u)
    let ?w1 = "?w0\<lparr>store_state := s',
                  trace := trace ?w0 @ [ReportListing ''receipts'' (ReceiptsListing rv) (Inr u)]\<rparr>"
    obtain y w2 where pr:
      "process_receipts api ds (limit_to mc (receipt_list_of rv)) (Some 0) ?w1 = (y, w2)"
      by (cases "process_receipts api ds (limit_to mc (receipt_list_of rv)) (Some 0) ?w1")
    from emits_onlyD[OF process_receipts_appends, of api ds "limit_to mc (receipt_list_of rv)" "Some 0" ?w1]
      pr obtain evs where tr: "trace w2 = trace ?w1 @ evs" by auto
    show ?thesis
    proof (cases y)
      case (Inl e)
      with q r rl Inr pr show ?thesis
        by (simp add: fetch_receipts_listed receipts_listed_reported receipts_failed_def
            try_except_def bnd_def emit_def raise_def)
    next
      case (Inr c)
      with q r rl \<open>x = Inr u\<close> pr tr show ?thesis
        by (auto simp: fetch_receipts_listed receipts_listed_reported
            try_except_def bnd_def ret_def new_events_def)
    qed
  qed
qed

lemma fetch_letters_stats:
  assumes q: "list_letters api None [] w = Some (Inr all_letters, w1)"
    and r: "fetch_letters api ds mc w = Some (Inr st, w')"
  shows "total st = int (length all_letters)
         \<and> fetched st = int (length (limit_to mc (limit_to mc all_letters)))
         \<and> (\<exists>evs. new_events w1 w'
                = ReportListing ''letters'' (LettersListing all_letters) (Inr ()) # evs)"
proof -
  obtain x s' where rl: "report_listing ds ''letters'' (LettersListing all_letters) (store_state w1) = (x, s')"
    by (cases "report_listing ds ''letters'' (LettersListing all_letters) (store_state w1)")
  show ?thesis
  proof (cases x)
    case (Inl e)
    with q r rl show ?thesis
      by (simp add: fetch_letters_listed letters_listed_def Let_def letters_failed_def
          try_except_def bnd_def store_call_def emit_def raise_def)
  next
    case (Inr u)
    let ?w2 = "w1\<lparr>store_state := s',
                  trace := trace w1 @ [ReportListing ''letters'' (LettersListing all_letters) (Inr u)]\<rparr>"
    obtain y w3 where pr:
      "process_letters api ds (limit_to mc all_letters) (Some 0) ?w2 = (y, w3)"
      by (cases "process_letters api ds (limit_to mc all_letters) (Some 0) ?w2")
    from emits_onlyD[OF process_letters_appends, of api ds "limit_to mc all_letters" "Some 0" ?w2]
      pr obtain evs where tr: "trace w3 = trace ?w2 @ evs" by auto
    show ?thesis
    proof (cases y)
      case (Inl e)
      with q r rl Inr pr show ?thesis
        by (simp add: fetch_letters_listed letters_listed_reported letters_failed_def
            try_except_def bnd_def emit_def raise_def)
    next
      case (Inr c)
      with q r rl \<open>x = Inr u\<close> pr tr show ?thesis
        by (auto simp: fetch_letters_listed letters_listed_reported
            try_except_def bnd_def ret_def new_events_def)
    qed
  qed
qed

section \<open>The list phase of the letters\<close>


section \<open>The parts of a letter\<close>

lemma store_counted_eq:
  "store ds c md (store_state w) = (Inr ok, s') \<Longrightarrow>
     store_counted ds c md n w =
       (Inr (if ok then n + 1 else n),
        w\<lparr>store_state := s', trace := trace w @ [Store c md (Inr ok)]\<rparr>)"
  by (simp add: store_counted_def bnd_def store_call_def ret_def)

lemma store_counted_raises:
  "store ds c md (store_state w) = (Inl e, s') \<Longrightarrow>
     store_counted ds c md n w =
       (Inl e, w\<lparr>store_state := s', trace := trace w @ [Store c md (Inl e)]\<rparr>)"
  by (simp add: store_counted_def bnd_def store_call_def)

lemma process_part_plain:
  "lp_content_type part = Some ''text/plain'' \<Longrightarrow>
     process_part api ds letter multi i part n =
       store_counted ds (Text (case lp_body part of None \<Rightarrow> [] | Some b \<Rightarrow> b))
         (letter_get_metadata (part_letter letter multi i) ''text/plain'') n"
  by (simp add: process_part_def Let_def)

lemma process_part_html:
  "lp_content_type part = Some ''text/html'' \<Longrightarrow>
     process_part api ds letter multi i part n =
       store_counted ds (case lp_body part of None \<Rightarrow> NoneContent | Some b \<Rightarrow> Text b)
         (letter_get_metadata (part_letter letter multi i) ''text/html'') n"
  by (simp add: process_part_def Let_def)

lemma process_part_pdf_no_key:
  "lp_content_type part = Some ''application/pdf'' \<Longrightarrow> \<not> truthy (lp_key part) \<Longrightarrow>
     process_part api ds letter multi i part n w =
       (Inr n, w\<lparr>trace := trace w
          @ [LogWarning (''PDF part in letter '' @ kl_key letter @ '' missing key'')]\<rparr>)"
  by (simp add: process_part_def Let_def bnd_def emit_def ret_def)


lemma process_part_pdf_stored:
  "lp_content_type part = Some ''application/pdf'' \<Longrightarrow> truthy (lp_key part) \<Longrightarrow>
   get_content_file api (kl_key letter) (the (lp_key part)) = Inr pdf_content \<Longrightarrow>
   store ds (Bytes pdf_content) (letter_get_metadata (part_letter letter multi i) ''application/pdf'')
     (store_state w) = (Inr ok, s') \<Longrightarrow>
     process_part api ds letter multi i part n w =
       (Inr (if ok then n + 1 else n),
        w\<lparr>store_state := s',
          trace := trace w
          @ [GetContentFile (kl_key letter) (the (lp_key part)),
             Store (Bytes pdf_content)
               (letter_get_metadata (part_letter letter multi i) ''application/pdf'') (Inr ok)]\<rparr>)"
  by (simp add: process_part_def Let_def bnd_def try_except_def remote_def store_counted_def
      store_call_def ret_def)

lemma process_part_unknown:
  "lp_content_type part \<noteq> Some ''text/plain'' \<Longrightarrow> lp_content_type part \<noteq> Some ''text/html'' \<Longrightarrow>
   lp_content_type part \<noteq> Some ''application/pdf'' \<Longrightarrow>
     process_part api ds letter multi i part n w =
       (Inr n, w\<lparr>trace := trace w
          @ [LogWarning (''Unknown content type in letter '' @ kl_key letter @ '': ''
               @ (case lp_content_type part of None \<Rightarrow> ''None'' | Some t \<Rightarrow> t))]\<rparr>)"
  by (simp add: process_part_def Let_def bnd_def emit_def ret_def)

text \<open>The number a part adds to \<^verbatim>\<open>parts_stored\<close> is the number of its successful stores.\<close>

lemma process_part_count:
  "process_part api ds letter multi i part n w = (Inr k, w') \<Longrightarrow>
     \<exists>evs. trace w' = trace w @ evs \<and> k = n + int (length (filter is_stored evs))"
  by (auto simp: process_part_def store_counted_def Let_def bnd_def try_except_def ret_def
      raise_def emit_def remote_def store_call_def
      split: if_splits prod.splits sum.splits)

lemma process_parts_count:
  "process_parts api ds letter multi parts i n w = (Inr k, w') \<Longrightarrow>
     \<exists>evs. trace w' = trace w @ evs \<and> k = n + int (length (filter is_stored evs))"
proof (induction parts arbitrary: i n w)
  case Nil
  then show ?case by (simp add: ret_def)
next
  case (Cons part rest)
  from Cons.prems obtain k1 w1 where
    h: "process_part api ds letter multi i part n w = (Inr k1, w1)" and
    t: "process_parts api ds letter multi rest (Suc i) k1 w1 = (Inr k, w')"
    by (auto dest!: bnd_InrD)
  from process_part_count[OF h] obtain evs1 where
    e1: "trace w1 = trace w @ evs1" "k1 = n + int (length (filter is_stored evs1))" by blast
  from Cons.IH[OF t] obtain evs2 where
    e2: "trace w' = trace w1 @ evs2" "k = k1 + int (length (filter is_stored evs2))" by blast
  from e1 e2 have "trace w' = trace w @ (evs1 @ evs2)
      \<and> k = n + int (length (filter is_stored (evs1 @ evs2)))"
    by simp
  then show ?case by blast
qed

lemma process_letter_parts_count:
  assumes "process_letter_parts api ds letter cd w = (Inr k, w')"
  shows "k = int (length (filter is_stored (new_events w w')))"
proof (cases "(case cd_parts cd of None \<Rightarrow> [] | Some ps \<Rightarrow> ps) = []")
  case True
  with assms show ?thesis
    by (auto simp: process_letter_parts_def Let_def bnd_def emit_def ret_def new_events_def)
next
  case False
  with assms have "process_parts api ds letter
      (1 < length (case cd_parts cd of None \<Rightarrow> [] | Some ps \<Rightarrow> ps))
      (case cd_parts cd of None \<Rightarrow> [] | Some ps \<Rightarrow> ps) 0 0 w = (Inr k, w')"
    by (simp add: process_letter_parts_def Let_def)
  from process_parts_count[OF this] show ?thesis
    by (auto simp: new_events_def)
qed


text \<open>The guarded block of an item, once the details are fetched and the metadata reported.\<close>

lemma letter_guarded_parts:
  assumes d: "get_content_details api (the (ld_key ld)) = Inr cd"
    and m: "report_metadata ds (LetterDetails ld cd) (letter_fingerprint ld) (store_state w) = (Inr b, s1)"
  shows "letter_guarded api ds ld c w =
     (case process_letter_parts api ds (letter_of (the (ld_key ld)) ld) cd
             (w\<lparr>store_state := s1,
                trace := trace w @ [GetContentDetails (the (ld_key ld)),
                                    ReportMetadata (LetterDetails ld cd) (letter_fingerprint ld) (Inr b)]\<rparr>) of
        (Inl e, w2) \<Rightarrow>
          (Inr c, w2\<lparr>trace := trace w2
             @ [LogError (''Error processing letter '' @ the (ld_key ld) @ '': '' @ str_exn e)]\<rparr>)
      | (Inr k, w2) \<Rightarrow>
          (if 0 < k then
             (case c of
                None \<Rightarrow>
                  (Inr None, w2\<lparr>trace := trace w2
                     @ [LogError (''Error processing letter '' @ the (ld_key ld) @ '': ''
                          @ ''unsupported operand type(s) for +=: NoneType and int'')]\<rparr>)
              | Some n \<Rightarrow> (Inr (Some (n + 1)), w2))
           else (Inr c, w2)))"
  using d m
  by (auto simp: letter_guarded_def letter_body_def try_except_def bnd_def remote_def
      store_call_def emit_def ret_def raise_def increment_def
      split: prod.splits sum.splits option.splits)

section \<open>A failed PDF fetch\<close>


lemma letter_guarded_raises:
  "letter_body api ds ld c w = (Inl e, w1) \<Longrightarrow>
     letter_guarded api ds ld c w =
       (Inr c, w1\<lparr>trace := trace w1
          @ [LogError (''Error processing letter '' @ the (ld_key ld) @ '': '' @ str_exn e)]\<rparr>)"
  by (simp add: letter_guarded_def try_except_def bnd_def emit_def ret_def)

lemma receipt_guarded_raises:
  "receipt_body api ds rd c w = (Inl e, w1) \<Longrightarrow>
     receipt_guarded api ds rd c w =
       (Inr c, w1\<lparr>trace := trace w1
          @ [LogError (''Error processing receipt '' @ the (rd_key rd) @ '': '' @ str_exn e)]\<rparr>)"
  by (simp add: receipt_guarded_def try_except_def bnd_def emit_def ret_def)





section \<open>The listing snapshot\<close>






section \<open>The poll loop\<close>

lemma exchange_token_extends:
  "\<exists>ext. snd (exchange_token env c v tr)
           = tr @ HttpPost ''https://app.api.kivra.com/v2/oauth2/token'' # ext
         \<and> ReportAuthenticationSuccess \<notin> set ext
         \<and> HttpPost ''https://app.api.kivra.com/v2/oauth2/token'' \<notin> set ext"
  by (simp add: exchange_token_def Let_def split: sum.split prod.split option.split)

lemma complete_auth_reported:
  "report_authentication_success env = Inr u \<Longrightarrow>
     complete_auth env c v tr = exchange_token env c v (tr @ [ReportAuthenticationSuccess])"
  by (simp add: complete_auth_def Let_def)

lemma complete_auth_raises:
  "report_authentication_success env = Inl e \<Longrightarrow>
     complete_auth env c v tr = (Inl (Raised e), tr @ [ReportAuthenticationSuccess])"
  by (simp add: complete_auth_def Let_def)

lemma poll_complete:
  "poll env n (poll_url u) = Inr (Some ''complete'') \<Longrightarrow>
     poll_for_auth env u c v n tr
       = Some (complete_auth env c v (tr @ [Sleep 5, HttpGet (poll_url u)]))"
  by (subst poll_for_auth.simps) (simp add: Let_def)

lemma poll_pending:
  "poll env n (poll_url u) = Inr (Some ''pending'') \<Longrightarrow>
     poll_for_auth env u c v n tr
       = poll_for_auth env u c v (Suc n) (tr @ [Sleep 5, HttpGet (poll_url u)])"
  by (subst poll_for_auth.simps) (simp add: Let_def)

lemma poll_other:
  "poll env n (poll_url u) = Inr st \<Longrightarrow> st \<noteq> Some ''complete'' \<Longrightarrow> st \<noteq> Some ''pending'' \<Longrightarrow>
     poll_for_auth env u c v n tr
       = Some (Inl (SystemExit ''BankID authentication failed''),
               tr @ [Sleep 5, HttpGet (poll_url u), AuthLogError ''Error during polling''])"
  by (subst poll_for_auth.simps) (simp add: Let_def)

lemma poll_raises:
  "poll env n (poll_url u) = Inl e \<Longrightarrow>
     poll_for_auth env u c v n tr
       = Some (Inl (Raised e), tr @ [Sleep 5, HttpGet (poll_url u)])"
  by (subst poll_for_auth.simps) (simp add: Let_def)

lemma poll_pending_times:
  "(\<And>i. i < k \<Longrightarrow> poll env (n + i) (poll_url u) = Inr (Some ''pending'')) \<Longrightarrow>
     poll_for_auth env u c v n tr
       = poll_for_auth env u c v (n + k)
           (tr @ concat (replicate k [Sleep 5, HttpGet (poll_url u)]))"
proof (induction k arbitrary: n tr)
  case 0
  show ?case by simp
next
  case (Suc k)
  from Suc.prems[of 0] have p: "poll env n (poll_url u) = Inr (Some ''pending'')" by simp
  have r: "\<And>i. i < k \<Longrightarrow> poll env (Suc n + i) (poll_url u) = Inr (Some ''pending'')"
    using Suc.prems[of "Suc _"] by simp
  show ?case
    by (simp add: poll_pending[OF p] Suc.IH[OF r])
qed

lemma poll_never_returns:
  assumes "poll_for_auth env u c v n tr = Some r"
    and "\<And>i. poll env i (poll_url u) = Inr (Some ''pending'')"
  shows False
  using assms
proof (induction rule: poll_for_auth.raw_induct[rotated 1, consumes 1])
  case (1 poll_for_auth env next_poll_url auth_code code_verifier n tr enva)
  from 1(2) 1(3)[of n] 1(1)[OF _ 1(3)] show ?case by (simp add: Let_def)
qed

lemma complete_auth_extends: "\<exists>ext. snd (complete_auth env c v tr) = tr @ ext"
proof (cases "report_authentication_success env")
  case (Inl e)
  then show ?thesis by (simp add: complete_auth_raises)
next
  case (Inr u)
  from exchange_token_extends[of env c v "tr @ [ReportAuthenticationSuccess]"]
  show ?thesis by (auto simp: complete_auth_reported[OF Inr])
qed

lemma poll_for_auth_extends:
  assumes "poll_for_auth env u c v n tr = Some r"
  shows "\<exists>ext. snd r = tr @ ext"
  using assms
proof (induction rule: poll_for_auth.raw_induct[rotated 1, consumes 1])
  case (1 poll_for_auth env next_poll_url auth_code code_verifier n tr enva)
  let ?tr1 = "tr @ [Sleep 5, HttpGet (poll_url next_poll_url)]"
  show ?case
  proof (cases "poll env n (poll_url next_poll_url)")
    case (Inl e)
    with 1(2) show ?thesis by (auto simp: Let_def)
  next
    case (Inr status)
    consider "status = Some ''complete''" | "status = Some ''pending''"
      | "status \<noteq> Some ''complete''" "status \<noteq> Some ''pending''" by blast
    then show ?thesis
    proof cases
      case 1
      with Inr \<open>_ = Some enva\<close> have "enva = complete_auth env auth_code code_verifier ?tr1"
        by (simp add: Let_def)
      with complete_auth_extends[of env auth_code code_verifier ?tr1] show ?thesis by auto
    next
      case 2
      with Inr \<open>_ = Some enva\<close>
      have "poll_for_auth env next_poll_url auth_code code_verifier (Suc n) ?tr1 = Some enva"
        by (simp add: Let_def)
      from "1.IH"[OF this] show ?thesis by auto
    next
      case 3
      with Inr \<open>_ = Some enva\<close> show ?thesis by (auto simp: Let_def)
    qed
  qed
qed

lemma authenticate_with_polls:
  assumes "truthy (ad_qr_code ad)" and "truthy (ad_code ad)"
    and "save_qr_image env (the (ad_qr_code ad)) (qr_path env) = Inr u1"
    and "display_qr_code env (qr_path env) = Inr u2"
  shows "authenticate_with env v ad tr =
           (case poll_for_auth env (ad_next_poll_url ad) (the (ad_code ad)) v 0
                   (tr @ [SaveQrImage (the (ad_qr_code ad)) (qr_path env),
                          DisplayQrCode (qr_path env)]) of
              None \<Rightarrow> None
            | Some (Inl a, tr') \<Rightarrow> Some (Inl a, tr')
            | Some (Inr token_info, tr') \<Rightarrow>
                Some (Inr token_info, tr' @ [RemoveFile (qr_path env)]))"
  using assms by (simp add: authenticate_with_def Let_def)

lemma authenticate_with_rejects:
  assumes "\<not> truthy (ad_qr_code ad) \<or> \<not> truthy (ad_code ad)"
  shows "authenticate_with env v ad tr =
           Some (Inl (SystemExit ''Authentication initialization failed''),
                 tr @ [AuthLogError ''Missing QR code or auth code in response''])"
  using assms by (auto simp: authenticate_with_def Let_def)

lemma authenticate_with_proceeds:
  assumes q: "truthy (ad_qr_code ad)" and c: "truthy (ad_code ad)"
    and r: "authenticate_with env v ad tr = Some r"
  shows "take (Suc (length tr)) (snd r) = tr @ [SaveQrImage (the (ad_qr_code ad)) (qr_path env)]"
proof (cases "save_qr_image env (the (ad_qr_code ad)) (qr_path env)")
  case (Inl e)
  with q c r show ?thesis by (auto simp: authenticate_with_def Let_def)
next
  case s: (Inr u1)
  show ?thesis
  proof (cases "display_qr_code env (qr_path env)")
    case (Inl e)
    with q c r s show ?thesis by (auto simp: authenticate_with_def Let_def)
  next
    case d: (Inr u2)
    let ?tr2 = "tr @ [SaveQrImage (the (ad_qr_code ad)) (qr_path env), DisplayQrCode (qr_path env)]"
    from r obtain p where
      p: "poll_for_auth env (ad_next_poll_url ad) (the (ad_code ad)) v 0 ?tr2 = Some p"
      and sn: "snd r = snd p \<or> snd r = snd p @ [RemoveFile (qr_path env)]"
      by (auto simp: authenticate_with_polls[OF q c s d] split: option.splits sum.splits prod.splits)
    from poll_for_auth_extends[OF p] obtain ext where "snd p = ?tr2 @ ext" by blast
    with sn show ?thesis by auto
  qed
qed

section \<open>The example sign-in\<close>

lemma example_poll_for_auth:
  "poll_for_auth example_env (Some ''/v2/oauth2/poll/1'') ''c0de'' ''verifier'' 0 tr =
     Some (Inr \<lparr> cr_access_token = Some ''at'', cr_actor_key = ''u1'',
                 cr_jwt_data = \<lparr> jd_kivra_user_id = Some ''u1'' \<rparr> \<rparr>,
           tr @ [Sleep 5, HttpGet ''https://app.api.kivra.com/v2/oauth2/poll/1'',
                 Sleep 5, HttpGet ''https://app.api.kivra.com/v2/oauth2/poll/1'',
                 Sleep 5, HttpGet ''https://app.api.kivra.com/v2/oauth2/poll/1'',
                 Sleep 5, HttpGet ''https://app.api.kivra.com/v2/oauth2/poll/1'',
                 ReportAuthenticationSuccess,
                 HttpPost ''https://app.api.kivra.com/v2/oauth2/token''])"
proof -
  let ?u = "Some ''/v2/oauth2/poll/1''"
  have p: "poll example_env 0 (poll_url ?u) = Inr (Some ''pending'')"
          "poll example_env (Suc 0) (poll_url ?u) = Inr (Some ''pending'')"
          "poll example_env (Suc (Suc 0)) (poll_url ?u) = Inr (Some ''pending'')"
    and d: "poll example_env (Suc (Suc (Suc 0))) (poll_url ?u) = Inr (Some ''complete'')"
    and r: "report_authentication_success example_env = Inr ()"
    by (simp_all add: example_env_def poll_url_def)
  show ?thesis
    by (simp add: poll_pending[OF p(1)] poll_pending[OF p(2)] poll_pending[OF p(3)]
        poll_complete[OF d] complete_auth_reported[OF r] example_exchange_token poll_url_def)
qed

lemma example_no_poll_url:
  "authenticate_with example_env ''verifier'' no_poll_url [] =
     Some (Inl (Raised (Exception ''Failed to establish a new connection'')),
           [SaveQrImage ''bankid.1.2.3'' ''/tmp/kivra_qr.png'',
            DisplayQrCode ''/tmp/kivra_qr.png'',
            Sleep 5, HttpGet ''https://app.api.kivra.comNone''])"
  by (subst authenticate_with_polls[where ?u1.0 = "()" and ?u2.0 = "()"])
     (simp_all add: no_poll_url_def example_env_def qr_path_def poll_url_def poll_raises)

section \<open>The idempotency gate\<close>




section \<open>Pagination\<close>



section \<open>Totals and truncation\<close>

text \<open>
  C3, as the claim states it, fails in two ways. With \<^verbatim>\<open>max_count = 0\<close> the fetcher
  truncates to no item and reports \<^verbatim>\<open>fetched = 0\<close>, where the claimed
  \<^verbatim>\<open>min(len(listing), max_count or len(listing))\<close> is the length of the listing (the test
  of the code is \<^verbatim>\<open>max_count is not None\<close>); with \<^verbatim>\<open>max_count = -1\<close> it reports one item
  less than the listing, where the claimed value is \<open>-1\<close>. And the total of the letters
  is the length of the accumulated listing, not the total the server reports: for a
  page of one letter that reports a total of seven it is 1.
\<close>

theorem truncation_counterexample:
  "fst (fetch_receipts example_api always_exists_store (Some 0) empty_world)
     = Inr \<lparr> total = 2, fetched = 0, stored = Some 0 \<rparr>
   \<and> spec_fetched 2 (Some 0) = 2
   \<and> fst (fetch_receipts example_api always_exists_store (Some (- 1)) empty_world)
     = Inr \<lparr> total = 2, fetched = 1, stored = None \<rparr>
   \<and> spec_fetched 2 (Some (- 1)) = - 1
   \<and> map_option fst (fetch_letters one_of_seven_api always_exists_store None empty_world)
     = Some (Inr \<lparr> total = 1, fetched = 1, stored = Some 0 \<rparr>)
   \<and> content_list one_of_seven_api None
     = Inr \<lparr> cp_list = Some [letter_a], cp_existsMore = Some False, cp_total = Some 7 \<rparr>"
proof -
  have a: "fst (fetch_receipts example_api always_exists_store (Some 0) empty_world)
     = Inr \<lparr> total = 2, fetched = 0, stored = Some 0 \<rparr>"
    by (simp add: fetch_receipts_def receipts_listed_def receipts_failed_def
      receipt_list_of_def total_of_def limit_to_def slice_to_def
      example_api_def always_exists_store_def memory_store_def empty_world_def
      bnd_def try_except_def ret_def emit_def remote_def store_call_def Let_def)
  have b: "fst (fetch_receipts example_api always_exists_store (Some (- 1)) empty_world)
     = Inr \<lparr> total = 2, fetched = 1, stored = None \<rparr>"
    by (simp add: fetch_receipts_def receipts_listed_def receipts_failed_def process_receipt_def
      receipt_list_of_def total_of_def limit_to_def slice_to_def
      example_api_def always_exists_store_def memory_store_def empty_world_def
      receipt_no_key_def
      bnd_def try_except_def ret_def emit_def remote_def store_call_def Let_def)
  have l: "list_letters one_of_seven_api None [] empty_world
             = Some (Inr [letter_a], empty_world\<lparr>trace := [QueryContentList None]\<rparr>)"
    by (subst list_letters.simps)
       (simp add: one_of_seven_api_def example_api_def empty_world_def remote_def
          page_letters_of_def exists_more_of_def)
  have c: "map_option fst (fetch_letters one_of_seven_api always_exists_store None empty_world)
     = Some (Inr \<lparr> total = 1, fetched = 1, stored = Some 0 \<rparr>)"
    by (subst fetch_letters_listed[OF l])
       (simp add: letters_listed_def letters_failed_def
      process_letter_def limit_to_def letter_a_def
      always_exists_store_def memory_store_def empty_world_def
      bnd_def try_except_def ret_def emit_def remote_def store_call_def Let_def)
  have d: "content_list one_of_seven_api None
     = Inr \<lparr> cp_list = Some [letter_a], cp_existsMore = Some False, cp_total = Some 7 \<rparr>"
    by (simp add: one_of_seven_api_def)
  from a b c d show ?thesis by (simp add: spec_fetched_def)
qed

text \<open>
  C3, amended. Whatever \<^verbatim>\<open>max_count\<close> is, the total of the receipts is the total the
  server reports (0 when it reports none) and the total of the letters is the length of
  the accumulated listing. The fetched count is the length of the listing when
  \<^verbatim>\<open>max_count\<close> is \<^verbatim>\<open>None\<close>, and \<^verbatim>\<open>min(len(listing), max_count)\<close> when \<^verbatim>\<open>max_count\<close> is
  0 or more. Truncation comes after the list phase: the listing handed to
  \<^verbatim>\<open>report_listing\<close>, before any item is processed, is the full one.
\<close>

theorem totals_and_truncation:
  "(receipts_query api = Inr rv \<and> fetch_receipts api ds mc w = (Inr st, w') \<longrightarrow>
      total st = total_of rv
      \<and> (mc = None \<longrightarrow> fetched st = int (length (receipt_list_of rv)))
      \<and> (\<forall>m. mc = Some m \<and> 0 \<le> m \<longrightarrow> fetched st = min (int (length (receipt_list_of rv))) m)
      \<and> (\<exists>evs. new_events w w'
            = QueryReceipts # ReportListing ''receipts'' (ReceiptsListing rv) (Inr ()) # evs))
   \<and> (list_letters api None [] w = Some (Inr all_letters, w1)
        \<and> fetch_letters api ds mc w = Some (Inr lst, w2) \<longrightarrow>
      total lst = int (length all_letters)
      \<and> (mc = None \<longrightarrow> fetched lst = int (length all_letters))
      \<and> (\<forall>m. mc = Some m \<and> 0 \<le> m \<longrightarrow> fetched lst = min (int (length all_letters)) m)
      \<and> (\<exists>evs. new_events w1 w2
            = ReportListing ''letters'' (LettersListing all_letters) (Inr ()) # evs))"
proof (intro conjI impI allI)
  assume h: "receipts_query api = Inr rv \<and> fetch_receipts api ds mc w = (Inr st, w')"
  have s: "total st = total_of rv
         \<and> fetched st = int (length (limit_to mc (receipt_list_of rv)))
         \<and> (\<exists>evs. new_events w w'
                = QueryReceipts # ReportListing ''receipts'' (ReceiptsListing rv) (Inr ()) # evs)"
    by (rule fetch_receipts_stats[OF conjunct1[OF h] conjunct2[OF h]])
  from s show "total st = total_of rv" by simp
  from s show "\<exists>evs. new_events w w'
            = QueryReceipts # ReportListing ''receipts'' (ReceiptsListing rv) (Inr ()) # evs"
    by simp
  {
    assume "mc = None"
    with s show "fetched st = int (length (receipt_list_of rv))" by (simp add: limit_to_None)
  }
  {
    fix m
    assume "mc = Some m \<and> 0 \<le> m"
    with s show "fetched st = min (int (length (receipt_list_of rv))) m"
      by (simp add: length_limit_to)
  }
next
  assume h: "list_letters api None [] w = Some (Inr all_letters, w1)
        \<and> fetch_letters api ds mc w = Some (Inr lst, w2)"
  have s: "total lst = int (length all_letters)
         \<and> fetched lst = int (length (limit_to mc (limit_to mc all_letters)))
         \<and> (\<exists>evs. new_events w1 w2
                = ReportListing ''letters'' (LettersListing all_letters) (Inr ()) # evs)"
    by (rule fetch_letters_stats[OF conjunct1[OF h] conjunct2[OF h]])
  from s show "total lst = int (length all_letters)" by simp
  from s show "\<exists>evs. new_events w1 w2
            = ReportListing ''letters'' (LettersListing all_letters) (Inr ()) # evs"
    by simp
  {
    assume "mc = None"
    with s show "fetched lst = int (length all_letters)" by (simp add: limit_to_None)
  }
  {
    fix m
    assume "mc = Some m \<and> 0 \<le> m"
    with s show "fetched lst = min (int (length all_letters)) m"
      by (simp add: limit_to_twice length_limit_to)
  }
qed

theorem totals_and_truncation_witness:
  "(\<exists>st w'. fetch_receipts example_api always_exists_store (Some 1) empty_world = (Inr st, w')
        \<and> total st = 2 \<and> fetched st = 1)
   \<and> (\<exists>st w'. fetch_letters example_api always_exists_store (Some 2) empty_world = Some (Inr st, w')
        \<and> total st = 3 \<and> fetched st = 2)"
proof -
  have q: "receipts_query example_api
             = Inr \<lparr> rv_list = Some [receipt_no_key, receipt_a], rv_total = Some 2 \<rparr>"
    by (simp add: example_api_def)
  have r: "fetch_receipts example_api always_exists_store (Some 1) empty_world
     = (Inr \<lparr> total = 2, fetched = 1, stored = None \<rparr>,
        \<lparr> store_state = [],
          trace = [QueryReceipts,
                   ReportListing ''receipts''
                     (ReceiptsListing \<lparr> rv_list = Some [receipt_no_key, receipt_a], rv_total = Some 2 \<rparr>)
                     (Inr ()),
                   LogWarning ''Receipt missing key, skipping''] \<rparr>)"
    by (simp add: fetch_receipts_def receipts_listed_def receipts_failed_def process_receipt_def
      receipt_list_of_def total_of_def limit_to_def slice_to_def
      example_api_def always_exists_store_def memory_store_def empty_world_def
      receipt_no_key_def
      bnd_def try_except_def ret_def emit_def remote_def store_call_def Let_def)
  have e2: "fst (exists_doc always_exists_store md s) = Inr True" for md s
    by (simp add: always_exists_store_def)
  have rl: "\<not> isl (fst (report_listing always_exists_store doc_type l s))" for doc_type l s
    by (simp add: always_exists_store_def memory_store_def)
  have ex: "\<not> isl (fst (exists_doc always_exists_store md s))" for md s
    by (simp add: always_exists_store_def)
  obtain u s' where rl':
    "report_listing always_exists_store ''letters'' (LettersListing [letter_a, letter_b, letter_no_key])
       (store_state (empty_world\<lparr>trace := [QueryContentList None, QueryContentList (Some ''l2'')]\<rparr>))
     = (Inr u, s')"
    by (simp add: always_exists_store_def memory_store_def)
  from process_letters_return[of always_exists_store, OF ex] obtain c' w2 where
    pl: "process_letters example_api always_exists_store
           (limit_to (Some 2) [letter_a, letter_b, letter_no_key]) (Some 0)
           (empty_world\<lparr>trace := [QueryContentList None, QueryContentList (Some ''l2'')],
                         store_state := s',
                         trace := [QueryContentList None, QueryContentList (Some ''l2'')]
                           @ [ReportListing ''letters'' (LettersListing [letter_a, letter_b, letter_no_key]) (Inr u)]\<rparr>)
         = (Inr c', w2)"
    by blast
  from rl' pl obtain lst where
    l: "fetch_letters example_api always_exists_store (Some 2) empty_world = Some (Inr lst, w2)"
    by (simp add: fetch_letters_listed[OF example_list_letters] letters_listed_reported[OF rl']
        try_except_def bnd_def ret_def)
  from totals_and_truncation
         [where api = example_api and ds = always_exists_store and mc = "Some 1"
            and w = empty_world and st = "\<lparr> total = 2, fetched = 1, stored = None \<rparr>"
            and rv = "\<lparr> rv_list = Some [receipt_no_key, receipt_a], rv_total = Some 2 \<rparr>"]
    q r
  have a: "\<exists>st w'. fetch_receipts example_api always_exists_store (Some 1) empty_world = (Inr st, w')
        \<and> total st = 2 \<and> fetched st = 1"
    by (simp add: total_of_def receipt_list_of_def)
  from totals_and_truncation
         [where api = example_api and ds = always_exists_store and mc = "Some 2"
            and w = empty_world and lst = lst and ?w2.0 = w2
            and all_letters = "[letter_a, letter_b, letter_no_key]"
            and ?w1.0 = "empty_world\<lparr>trace := [QueryContentList None, QueryContentList (Some ''l2'')]\<rparr>"]
    example_list_letters l
  have b: "\<exists>st w'. fetch_letters example_api always_exists_store (Some 2) empty_world = Some (Inr st, w')
        \<and> total st = 3 \<and> fetched st = 2"
    by simp
  from a b show ?thesis by simp
qed

section \<open>Dispatch on the content type of a part\<close>

text \<open>
  C4, as the claim states it, fails in two places. A PDF part without a file key
  triggers no fetch and no store: it is skipped with a warning. And an item of which
  a part was newly persisted is not always counted: when the text part of a letter is
  stored and the fetch of its PDF part then fails, the item is abandoned and the
  counter stays where it was.
\<close>

theorem part_dispatch_counterexample:
  "fst (process_letter failing_file_api memory_store letter_a (Some 0) empty_world) = Inr (Some 0)
   \<and> filter is_stored
        (trace (snd (process_letter failing_file_api memory_store letter_a (Some 0) empty_world)))
       = [Store (Text ''hello'')
            (LetterMetadata ''2024-05-02'' ''Bank'' ''l1'' ''text/plain'' (Some 0)) (Inr True)]
   \<and> process_part example_api memory_store (letter_of ''l1'' letter_a) True 1 pdf_part_no_key 1
        empty_world
       = (Inr 1, empty_world\<lparr>trace := [LogWarning ''PDF part in letter l1 missing key'']\<rparr>)"
proof -
  have k: "truthy (ld_key letter_a)" by (simp add: letter_a_def)
  have a: "process_part example_api memory_store (letter_of ''l1'' letter_a) True 1 pdf_part_no_key 1
        empty_world
       = (Inr 1, empty_world\<lparr>trace := [LogWarning ''PDF part in letter l1 missing key'']\<rparr>)"
    by (simp add: process_part_pdf_no_key pdf_part_no_key_def letter_of_def empty_world_def)
  have b: "process_letter failing_file_api memory_store letter_a (Some 0) empty_world
       = (Inr (Some 0),
          \<lparr> store_state =
              [LetterMetadata ''2024-05-02'' ''Bank'' ''l1'' ''application/json'' None,
               LetterMetadata ''2024-05-02'' ''Bank'' ''l1'' ''text/plain'' (Some 0)],
            trace =
              [Exists (LetterMetadata ''2024-05-02'' ''Bank'' ''l1'' ''application/json'' None) (Inr False),
               GetContentDetails ''l1'',
               ReportMetadata (LetterDetails letter_a \<lparr> cd_parts = Some four_parts \<rparr>)
                 (LetterMetadata ''2024-05-02'' ''Bank'' ''l1'' ''application/json'' None) (Inr True),
               Store (Text ''hello'')
                 (LetterMetadata ''2024-05-02'' ''Bank'' ''l1'' ''text/plain'' (Some 0)) (Inr True),
               GetContentFile ''l1'' ''f1'',
               LogError ''Error fetching PDF for letter l1, file f1: Failed to get content file: 500'',
               LogError ''Error processing letter l1: Failed to get content file: 500''] \<rparr>)"
    by (simp add: process_letter_def letter_guarded_def letter_body_def process_letter_parts_def
        process_part_def store_counted_def part_letter_def
        letter_fingerprint_def letter_of_def letter_get_metadata_def format_date_def
        failing_file_api_def example_api_def memory_store_def empty_world_def
        letter_a_def four_parts_def
        bnd_def try_except_def ret_def raise_def emit_def remote_def store_call_def Let_def)
  from a b show ?thesis by simp
qed

text \<open>
  C4, amended. A part of declared type \<^verbatim>\<open>text/plain\<close> or \<^verbatim>\<open>text/html\<close> is handed to
  the store with its body as it is; a part of type \<^verbatim>\<open>application/pdf\<close> that has a file
  key triggers a file fetch by that key and the file is then handed to the store, and
  one without a file key is skipped; any other content type is skipped. Each store call
  that returns true adds one to the number of stored parts, so the four parts
  \<^verbatim>\<open>[text/plain, application/pdf, text/html, application/x-unknown]\<close> give 3 stored
  parts when the fetch and the stores succeed. The item is counted, once, iff the
  processing of its parts ends without an exception and at least one store call
  returned true (what \<^verbatim>\<open>report_metadata\<close> persisted does not count); an item whose
  part processing raises is not counted.
\<close>

theorem part_dispatch:
  "(lp_content_type part = Some ''text/plain'' \<longrightarrow>
      process_part api ds letter multi i part n =
        store_counted ds (Text (case lp_body part of None \<Rightarrow> [] | Some b \<Rightarrow> b))
          (letter_get_metadata (part_letter letter multi i) ''text/plain'') n)
   \<and> (lp_content_type part = Some ''text/html'' \<longrightarrow>
      process_part api ds letter multi i part n =
        store_counted ds (case lp_body part of None \<Rightarrow> NoneContent | Some b \<Rightarrow> Text b)
          (letter_get_metadata (part_letter letter multi i) ''text/html'') n)
   \<and> (lp_content_type part = Some ''application/pdf'' \<and> truthy (lp_key part)
        \<and> get_content_file api (kl_key letter) (the (lp_key part)) = Inr pdf_content
        \<and> store ds (Bytes pdf_content)
             (letter_get_metadata (part_letter letter multi i) ''application/pdf'') (store_state w)
           = (Inr ok, s') \<longrightarrow>
      process_part api ds letter multi i part n w =
        (Inr (if ok then n + 1 else n),
         w\<lparr>store_state := s',
           trace := trace w
             @ [GetContentFile (kl_key letter) (the (lp_key part)),
                Store (Bytes pdf_content)
                  (letter_get_metadata (part_letter letter multi i) ''application/pdf'') (Inr ok)]\<rparr>))
   \<and> (lp_content_type part = Some ''application/pdf'' \<and> \<not> truthy (lp_key part) \<longrightarrow>
      process_part api ds letter multi i part n w =
        (Inr n, w\<lparr>trace := trace w
           @ [LogWarning (''PDF part in letter '' @ kl_key letter @ '' missing key'')]\<rparr>))
   \<and> (lp_content_type part \<noteq> Some ''text/plain'' \<and> lp_content_type part \<noteq> Some ''text/html''
        \<and> lp_content_type part \<noteq> Some ''application/pdf'' \<longrightarrow>
      process_part api ds letter multi i part n w =
        (Inr n, w\<lparr>trace := trace w
           @ [LogWarning (''Unknown content type in letter '' @ kl_key letter @ '': ''
                @ (case lp_content_type part of None \<Rightarrow> ''None'' | Some t \<Rightarrow> t))]\<rparr>))
   \<and> (store ds c md (store_state w) = (Inr ok, s') \<longrightarrow>
      store_counted ds c md n w =
        (Inr (if ok then n + 1 else n),
         w\<lparr>store_state := s', trace := trace w @ [Store c md (Inr ok)]\<rparr>))
   \<and> (process_letter_parts api ds letter cd w = (Inr k, w') \<longrightarrow>
      k = int (length (filter is_stored (new_events w w'))))
   \<and> ((\<forall>c md s. fst (store ds c md s) = Inr True)
        \<and> get_content_file api (kl_key letter) ''f1'' = Inr pdf_content \<longrightarrow>
      fst (process_letter_parts api ds letter \<lparr> cd_parts = Some four_parts \<rparr> w) = Inr 3)
   \<and> (get_content_details api (the (ld_key ld)) = Inr cd
        \<and> report_metadata ds (LetterDetails ld cd) (letter_fingerprint ld) (store_state w) = (Inr b, s1) \<longrightarrow>
      letter_guarded api ds ld (Some c0) w =
        (case process_letter_parts api ds (letter_of (the (ld_key ld)) ld) cd
                (w\<lparr>store_state := s1,
                   trace := trace w @ [GetContentDetails (the (ld_key ld)),
                                       ReportMetadata (LetterDetails ld cd) (letter_fingerprint ld) (Inr b)]\<rparr>) of
           (Inl e, w2) \<Rightarrow>
             (Inr (Some c0), w2\<lparr>trace := trace w2
                @ [LogError (''Error processing letter '' @ the (ld_key ld) @ '': '' @ str_exn e)]\<rparr>)
         | (Inr k, w2) \<Rightarrow> (Inr (Some (if 0 < k then c0 + 1 else c0)), w2)))
   \<and> (process_letter api ds ld (Some c0) w = (Inr c', w') \<longrightarrow>
      c' = None \<or> c' = Some c0 \<or> c' = Some (c0 + 1))"
proof (intro conjI impI)
  assume "lp_content_type part = Some ''text/plain''"
  then show "process_part api ds letter multi i part n =
        store_counted ds (Text (case lp_body part of None \<Rightarrow> [] | Some b \<Rightarrow> b))
          (letter_get_metadata (part_letter letter multi i) ''text/plain'') n"
    by (rule process_part_plain)
next
  assume "lp_content_type part = Some ''text/html''"
  then show "process_part api ds letter multi i part n =
        store_counted ds (case lp_body part of None \<Rightarrow> NoneContent | Some b \<Rightarrow> Text b)
          (letter_get_metadata (part_letter letter multi i) ''text/html'') n"
    by (rule process_part_html)
next
  assume "lp_content_type part = Some ''application/pdf'' \<and> truthy (lp_key part)
        \<and> get_content_file api (kl_key letter) (the (lp_key part)) = Inr pdf_content
        \<and> store ds (Bytes pdf_content)
             (letter_get_metadata (part_letter letter multi i) ''application/pdf'') (store_state w)
           = (Inr ok, s')"
  then show "process_part api ds letter multi i part n w =
        (Inr (if ok then n + 1 else n),
         w\<lparr>store_state := s',
           trace := trace w
             @ [GetContentFile (kl_key letter) (the (lp_key part)),
                Store (Bytes pdf_content)
                  (letter_get_metadata (part_letter letter multi i) ''application/pdf'') (Inr ok)]\<rparr>)"
    by (simp add: process_part_pdf_stored)
next
  assume "lp_content_type part = Some ''application/pdf'' \<and> \<not> truthy (lp_key part)"
  then show "process_part api ds letter multi i part n w =
        (Inr n, w\<lparr>trace := trace w
           @ [LogWarning (''PDF part in letter '' @ kl_key letter @ '' missing key'')]\<rparr>)"
    by (simp add: process_part_pdf_no_key)
next
  assume "lp_content_type part \<noteq> Some ''text/plain'' \<and> lp_content_type part \<noteq> Some ''text/html''
        \<and> lp_content_type part \<noteq> Some ''application/pdf''"
  then show "process_part api ds letter multi i part n w =
        (Inr n, w\<lparr>trace := trace w
           @ [LogWarning (''Unknown content type in letter '' @ kl_key letter @ '': ''
                @ (case lp_content_type part of None \<Rightarrow> ''None'' | Some t \<Rightarrow> t))]\<rparr>)"
    by (simp add: process_part_unknown)
next
  assume "store ds c md (store_state w) = (Inr ok, s')"
  then show "store_counted ds c md n w =
        (Inr (if ok then n + 1 else n),
         w\<lparr>store_state := s', trace := trace w @ [Store c md (Inr ok)]\<rparr>)"
    by (rule store_counted_eq)
next
  assume "process_letter_parts api ds letter cd w = (Inr k, w')"
  then show "k = int (length (filter is_stored (new_events w w')))"
    by (rule process_letter_parts_count)
next
  assume h: "(\<forall>c md s. fst (store ds c md s) = Inr True)
        \<and> get_content_file api (kl_key letter) ''f1'' = Inr pdf_content"
  then have ok: "fst (store ds c md s) = Inr True" for c md s by blast
  from h show "fst (process_letter_parts api ds letter \<lparr> cd_parts = Some four_parts \<rparr> w) = Inr 3"
    by (simp add: process_letter_parts_def four_parts_def process_part_def store_counted_def
        Let_def bnd_def try_except_def ret_def emit_def remote_def store_call_def
        case_prod_unfold ok)
next
  assume h: "get_content_details api (the (ld_key ld)) = Inr cd
        \<and> report_metadata ds (LetterDetails ld cd) (letter_fingerprint ld) (store_state w) = (Inr b, s1)"
  show "letter_guarded api ds ld (Some c0) w =
        (case process_letter_parts api ds (letter_of (the (ld_key ld)) ld) cd
                (w\<lparr>store_state := s1,
                   trace := trace w @ [GetContentDetails (the (ld_key ld)),
                                       ReportMetadata (LetterDetails ld cd) (letter_fingerprint ld) (Inr b)]\<rparr>) of
           (Inl e, w2) \<Rightarrow>
             (Inr (Some c0), w2\<lparr>trace := trace w2
                @ [LogError (''Error processing letter '' @ the (ld_key ld) @ '': '' @ str_exn e)]\<rparr>)
         | (Inr k, w2) \<Rightarrow> (Inr (Some (if 0 < k then c0 + 1 else c0)), w2))"
    by (simp add: letter_guarded_parts[OF conjunct1[OF h] conjunct2[OF h]]
        split: prod.splits sum.splits)
next
  assume "process_letter api ds ld (Some c0) w = (Inr c', w')"
  from process_letter_counter[OF this] show "c' = None \<or> c' = Some c0 \<or> c' = Some (c0 + 1)"
    by auto
qed

theorem part_dispatch_witness:
  "fst (process_letter_parts example_api memory_store (letter_of ''l1'' letter_a)
          \<lparr> cd_parts = Some four_parts \<rparr> empty_world) = Inr 3
   \<and> process_part example_api memory_store (letter_of ''l1'' letter_a) True 1 pdf_part_no_key 0
        empty_world
       = (Inr 0, empty_world\<lparr>trace := trace empty_world
            @ [LogWarning (''PDF part in letter '' @ kl_key (letter_of ''l1'' letter_a) @ '' missing key'')]\<rparr>)
   \<and> store_counted memory_store (Text ''hello'')
        (LetterMetadata ''2024-05-02'' ''Bank'' ''l1'' ''text/plain'' (Some 0)) 0 empty_world
       = (Inr 1,
          empty_world\<lparr>store_state := [LetterMetadata ''2024-05-02'' ''Bank'' ''l1'' ''text/plain'' (Some 0)],
            trace := trace empty_world
              @ [Store (Text ''hello'')
                   (LetterMetadata ''2024-05-02'' ''Bank'' ''l1'' ''text/plain'' (Some 0)) (Inr True)]\<rparr>)"
proof -
  have ok: "\<forall>c md s. fst (store memory_store c md s) = Inr True"
    by (simp add: memory_store_def)
  have f: "get_content_file example_api (kl_key (letter_of ''l1'' letter_a)) ''f1'' = Inr ''%PDF''"
    by (simp add: example_api_def)
  have p: "lp_content_type pdf_part_no_key = Some ''application/pdf''
           \<and> \<not> truthy (lp_key pdf_part_no_key)"
    by (simp add: pdf_part_no_key_def)
  have s: "store memory_store (Text ''hello'')
             (LetterMetadata ''2024-05-02'' ''Bank'' ''l1'' ''text/plain'' (Some 0))
             (store_state empty_world)
           = (Inr True, [LetterMetadata ''2024-05-02'' ''Bank'' ''l1'' ''text/plain'' (Some 0)])"
    by (simp add: memory_store_def empty_world_def)
  from part_dispatch
         [where api = example_api and ds = memory_store and letter = "letter_of ''l1'' letter_a"
            and w = empty_world and pdf_content = "''%PDF''" and part = pdf_part_no_key
            and multi = True and i = 1 and n = 0 and c = "Text ''hello''"
            and md = "LetterMetadata ''2024-05-02'' ''Bank'' ''l1'' ''text/plain'' (Some 0)"
            and ok = True
            and s' = "[LetterMetadata ''2024-05-02'' ''Bank'' ''l1'' ''text/plain'' (Some 0)]"]
    ok f p s
  show ?thesis by simp
qed

section \<open>A failure that is fatal to one item\<close>



section \<open>A failure of the listing snapshot\<close>




section \<open>The check of the authorization response\<close>

text \<open>
  C7, as the claim states it, fails for the polling URL. An answer that has the
  scannable code and the authorization code but no polling URL passes the check: the
  QR code is saved and displayed and the poll loop starts, polling the address that
  ends in \<^verbatim>\<open>None\<close>. Where that address cannot be reached the run ends in the
  connection error of the first poll; where it answers \<^verbatim>\<open>complete\<close> the sign-in
  succeeds.
\<close>

theorem auth_validation_counterexample:
  "authenticate_with example_env ''verifier'' no_poll_url [] =
     Some (Inl (Raised (Exception ''Failed to establish a new connection'')),
           [SaveQrImage ''bankid.1.2.3'' ''/tmp/kivra_qr.png'',
            DisplayQrCode ''/tmp/kivra_qr.png'',
            Sleep 5, HttpGet ''https://app.api.kivra.comNone''])
   \<and> authenticate_with (example_env\<lparr> poll := (\<lambda>n url. Inr (Some ''complete'')) \<rparr>)
        ''verifier'' no_poll_url [] =
       Some (Inr \<lparr> cr_access_token = Some ''at'', cr_actor_key = ''u1'',
                   cr_jwt_data = \<lparr> jd_kivra_user_id = Some ''u1'' \<rparr> \<rparr>,
             [SaveQrImage ''bankid.1.2.3'' ''/tmp/kivra_qr.png'',
              DisplayQrCode ''/tmp/kivra_qr.png'',
              Sleep 5, HttpGet ''https://app.api.kivra.comNone'',
              ReportAuthenticationSuccess,
              HttpPost ''https://app.api.kivra.com/v2/oauth2/token'',
              RemoveFile ''/tmp/kivra_qr.png''])"
proof -
  let ?env = "example_env\<lparr> poll := (\<lambda>n url. Inr (Some ''complete'')) \<rparr>"
  have sq: "save_qr_image ?env = (\<lambda>qr_code path. Inr ())"
    and dq: "display_qr_code ?env = (\<lambda>path. Inr ())"
    and qp: "qr_path ?env = ''/tmp/kivra_qr.png''"
    and rs: "report_authentication_success ?env = Inr ()"
    by (simp_all add: example_env_def qr_path_def)
  have pc: "poll ?env 0 (poll_url None) = Inr (Some ''complete'')" by simp
  have t: "token ?env = token example_env" "json_loads ?env = json_loads example_env"
    by simp_all
  have P: "poll_for_auth ?env None ''c0de'' ''verifier'' 0 tr =
             Some (Inr \<lparr> cr_access_token = Some ''at'', cr_actor_key = ''u1'',
                         cr_jwt_data = \<lparr> jd_kivra_user_id = Some ''u1'' \<rparr> \<rparr>,
                   tr @ [Sleep 5, HttpGet ''https://app.api.kivra.comNone'',
                         ReportAuthenticationSuccess,
                         HttpPost ''https://app.api.kivra.com/v2/oauth2/token''])" for tr
    by (simp add: poll_complete[OF pc] complete_auth_reported[OF rs] example_exchange_token[OF t]
        poll_url_def)
  have b: "authenticate_with ?env ''verifier'' no_poll_url [] =
       Some (Inr \<lparr> cr_access_token = Some ''at'', cr_actor_key = ''u1'',
                   cr_jwt_data = \<lparr> jd_kivra_user_id = Some ''u1'' \<rparr> \<rparr>,
             [SaveQrImage ''bankid.1.2.3'' ''/tmp/kivra_qr.png'',
              DisplayQrCode ''/tmp/kivra_qr.png'',
              Sleep 5, HttpGet ''https://app.api.kivra.comNone'',
              ReportAuthenticationSuccess,
              HttpPost ''https://app.api.kivra.com/v2/oauth2/token'',
              RemoveFile ''/tmp/kivra_qr.png''])"
    by (simp add: authenticate_with_def Let_def no_poll_url_def sq dq qp P)
  from example_no_poll_url b show ?thesis by (rule conjI)
qed

text \<open>
  C7, amended. The authenticator treats the absence of the scannable code or of the
  authorization code as fatal: it logs, and aborts the run before anything is shown or
  polled. When both are present authentication proceeds, whether or not the answer has
  a polling URL: the QR code is saved as the next step and, once it is displayed, the
  poll loop runs on the polling URL as the answer gave it.
\<close>

theorem auth_init_validation:
  "(\<not> truthy (ad_qr_code ad) \<or> \<not> truthy (ad_code ad) \<longrightarrow>
      authenticate_with env v ad tr =
        Some (Inl (SystemExit ''Authentication initialization failed''),
              tr @ [AuthLogError ''Missing QR code or auth code in response'']))
   \<and> (truthy (ad_qr_code ad) \<and> truthy (ad_code ad) \<and> authenticate_with env v ad tr = Some r \<longrightarrow>
      take (Suc (length tr)) (snd r) = tr @ [SaveQrImage (the (ad_qr_code ad)) (qr_path env)])
   \<and> (truthy (ad_qr_code ad) \<and> truthy (ad_code ad)
        \<and> save_qr_image env (the (ad_qr_code ad)) (qr_path env) = Inr ()
        \<and> display_qr_code env (qr_path env) = Inr () \<longrightarrow>
      authenticate_with env v ad tr =
        (case poll_for_auth env (ad_next_poll_url ad) (the (ad_code ad)) v 0
                (tr @ [SaveQrImage (the (ad_qr_code ad)) (qr_path env),
                       DisplayQrCode (qr_path env)]) of
           None \<Rightarrow> None
         | Some (Inl a, tr') \<Rightarrow> Some (Inl a, tr')
         | Some (Inr token_info, tr') \<Rightarrow>
             Some (Inr token_info, tr' @ [RemoveFile (qr_path env)])))
   \<and> (session_get env ''https://app.kivra.com/'' = Inr ()
        \<and> authorize env (generate_code_challenge env (token_urlsafe env)) = Inr (status_code, ad)
        \<and> (status_code = 201 \<or> status_code = 202) \<longrightarrow>
      authenticate env ssn tr =
        authenticate_with env (token_urlsafe env) ad
          (tr @ [HttpGet ''https://app.kivra.com/'',
                 HttpPost ''https://app.api.kivra.com/v2/oauth2/authorize'']))"
proof (intro conjI impI)
  assume "\<not> truthy (ad_qr_code ad) \<or> \<not> truthy (ad_code ad)"
  then show "authenticate_with env v ad tr =
        Some (Inl (SystemExit ''Authentication initialization failed''),
              tr @ [AuthLogError ''Missing QR code or auth code in response''])"
    by (rule authenticate_with_rejects)
next
  assume "truthy (ad_qr_code ad) \<and> truthy (ad_code ad) \<and> authenticate_with env v ad tr = Some r"
  then show "take (Suc (length tr)) (snd r) = tr @ [SaveQrImage (the (ad_qr_code ad)) (qr_path env)]"
    by (elim conjE) (rule authenticate_with_proceeds, assumption+)
next
  assume "truthy (ad_qr_code ad) \<and> truthy (ad_code ad)
        \<and> save_qr_image env (the (ad_qr_code ad)) (qr_path env) = Inr ()
        \<and> display_qr_code env (qr_path env) = Inr ()"
  then show "authenticate_with env v ad tr =
        (case poll_for_auth env (ad_next_poll_url ad) (the (ad_code ad)) v 0
                (tr @ [SaveQrImage (the (ad_qr_code ad)) (qr_path env),
                       DisplayQrCode (qr_path env)]) of
           None \<Rightarrow> None
         | Some (Inl a, tr') \<Rightarrow> Some (Inl a, tr')
         | Some (Inr token_info, tr') \<Rightarrow>
             Some (Inr token_info, tr' @ [RemoveFile (qr_path env)]))"
    by (elim conjE) (rule authenticate_with_polls, assumption+)
next
  assume "session_get env ''https://app.kivra.com/'' = Inr ()
        \<and> authorize env (generate_code_challenge env (token_urlsafe env)) = Inr (status_code, ad)
        \<and> (status_code = 201 \<or> status_code = 202)"
  then show "authenticate env ssn tr =
        authenticate_with env (token_urlsafe env) ad
          (tr @ [HttpGet ''https://app.kivra.com/'',
                 HttpPost ''https://app.api.kivra.com/v2/oauth2/authorize''])"
    by (auto simp: authenticate_def Let_def)
qed

theorem auth_init_validation_witness:
  "authenticate_with example_env ''verifier''
       \<lparr> ad_qr_code = None, ad_next_poll_url = Some ''/v2/oauth2/poll/1'',
         ad_code = Some ''c0de'' \<rparr> [] =
     Some (Inl (SystemExit ''Authentication initialization failed''),
           [AuthLogError ''Missing QR code or auth code in response''])
   \<and> authenticate_with example_env ''verifier''
       \<lparr> ad_qr_code = Some ''bankid.1.2.3'', ad_next_poll_url = Some ''/v2/oauth2/poll/1'',
         ad_code = Some '''' \<rparr> [] =
     Some (Inl (SystemExit ''Authentication initialization failed''),
           [AuthLogError ''Missing QR code or auth code in response''])
   \<and> take 1 (snd (the (authenticate_with example_env ''verifier'' no_poll_url [])))
       = [SaveQrImage ''bankid.1.2.3'' ''/tmp/kivra_qr.png'']
   \<and> authenticate example_env ''199001011234'' [] =
       Some (Inr \<lparr> cr_access_token = Some ''at'', cr_actor_key = ''u1'',
                   cr_jwt_data = \<lparr> jd_kivra_user_id = Some ''u1'' \<rparr> \<rparr>,
             [HttpGet ''https://app.kivra.com/'',
              HttpPost ''https://app.api.kivra.com/v2/oauth2/authorize'',
              SaveQrImage ''bankid.1.2.3'' ''/tmp/kivra_qr.png'',
              DisplayQrCode ''/tmp/kivra_qr.png'',
              Sleep 5, HttpGet ''https://app.api.kivra.com/v2/oauth2/poll/1'',
              Sleep 5, HttpGet ''https://app.api.kivra.com/v2/oauth2/poll/1'',
              Sleep 5, HttpGet ''https://app.api.kivra.com/v2/oauth2/poll/1'',
              Sleep 5, HttpGet ''https://app.api.kivra.com/v2/oauth2/poll/1'',
              ReportAuthenticationSuccess,
              HttpPost ''https://app.api.kivra.com/v2/oauth2/token'',
              RemoveFile ''/tmp/kivra_qr.png''])"
proof -
  let ?no_qr = "\<lparr> ad_qr_code = None, ad_next_poll_url = Some ''/v2/oauth2/poll/1'',
                  ad_code = Some ''c0de'' \<rparr>"
  let ?no_code = "\<lparr> ad_qr_code = Some ''bankid.1.2.3'',
                    ad_next_poll_url = Some ''/v2/oauth2/poll/1'', ad_code = Some '''' \<rparr>"
  let ?ad = "\<lparr> ad_qr_code = Some ''bankid.1.2.3'',
               ad_next_poll_url = Some ''/v2/oauth2/poll/1'', ad_code = Some ''c0de'' \<rparr>"
  let ?r = "(Inl (Raised (Exception ''Failed to establish a new connection'')),
            [SaveQrImage ''bankid.1.2.3'' ''/tmp/kivra_qr.png'',
             DisplayQrCode ''/tmp/kivra_qr.png'',
             Sleep 5, HttpGet ''https://app.api.kivra.comNone''])"
  have n1: "\<not> truthy (ad_qr_code ?no_qr) \<or> \<not> truthy (ad_code ?no_qr)" by simp
  have n2: "\<not> truthy (ad_qr_code ?no_code) \<or> \<not> truthy (ad_code ?no_code)" by simp
  note a = mp[OF conjunct1[OF auth_init_validation
                [where ad = ?no_qr and env = example_env and v = "''verifier''" and tr = "[]"]] n1]
  note b = mp[OF conjunct1[OF auth_init_validation
                [where ad = ?no_code and env = example_env and v = "''verifier''" and tr = "[]"]] n2]
  have q: "truthy (ad_qr_code no_poll_url)" "truthy (ad_code no_poll_url)"
    by (simp_all add: no_poll_url_def)
  have c: "take 1 (snd (the (authenticate_with example_env ''verifier'' no_poll_url [])))
             = [SaveQrImage ''bankid.1.2.3'' ''/tmp/kivra_qr.png'']"
    using mp[OF conjunct1[OF conjunct2[OF auth_init_validation
                [where ad = no_poll_url and env = example_env and v = "''verifier''"
                   and tr = "[]" and r = ?r]]]
             conjI[OF q(1) conjI[OF q(2) example_no_poll_url]]]
    by (simp add: example_no_poll_url)
  note T = auth_init_validation
             [where ad = ?ad and env = example_env and v = "token_urlsafe example_env"
                and tr = "[] @ [HttpGet ''https://app.kivra.com/'',
                                HttpPost ''https://app.api.kivra.com/v2/oauth2/authorize'']"
                and status_code = 201]
  have g: "session_get example_env ''https://app.kivra.com/'' = Inr ()"
    and z: "authorize example_env (generate_code_challenge example_env (token_urlsafe example_env))
              = Inr (201, ?ad)"
    and o: "(201::nat) = 201 \<or> (201::nat) = 202"
    and sv: "save_qr_image example_env (the (ad_qr_code ?ad)) (qr_path example_env) = Inr ()"
    and ds: "display_qr_code example_env (qr_path example_env) = Inr ()"
    and tu: "token_urlsafe example_env = ''verifier''"
    and qp: "qr_path example_env = ''/tmp/kivra_qr.png''"
    by (simp_all add: example_env_def qr_path_def)
  have t: "truthy (ad_qr_code ?ad)" "truthy (ad_code ?ad)" by simp_all
  have d: "authenticate example_env ''199001011234'' [] =
       Some (Inr \<lparr> cr_access_token = Some ''at'', cr_actor_key = ''u1'',
                   cr_jwt_data = \<lparr> jd_kivra_user_id = Some ''u1'' \<rparr> \<rparr>,
             [HttpGet ''https://app.kivra.com/'',
              HttpPost ''https://app.api.kivra.com/v2/oauth2/authorize'',
              SaveQrImage ''bankid.1.2.3'' ''/tmp/kivra_qr.png'',
              DisplayQrCode ''/tmp/kivra_qr.png'',
              Sleep 5, HttpGet ''https://app.api.kivra.com/v2/oauth2/poll/1'',
              Sleep 5, HttpGet ''https://app.api.kivra.com/v2/oauth2/poll/1'',
              Sleep 5, HttpGet ''https://app.api.kivra.com/v2/oauth2/poll/1'',
              Sleep 5, HttpGet ''https://app.api.kivra.com/v2/oauth2/poll/1'',
              ReportAuthenticationSuccess,
              HttpPost ''https://app.api.kivra.com/v2/oauth2/token'',
              RemoveFile ''/tmp/kivra_qr.png''])"
    using mp[OF conjunct2[OF conjunct2[OF conjunct2[OF auth_init_validation
                [where ad = ?ad and env = example_env and tr = "[]" and status_code = 201
                   and ssn = "''199001011234''"]]]]
             conjI[OF g conjI[OF z o]]]
          mp[OF conjunct1[OF conjunct2[OF conjunct2[OF T]]]
             conjI[OF t(1) conjI[OF t(2) conjI[OF sv ds]]]]
    by (simp add: tu qp example_poll_for_auth)
  from a b c d show ?thesis by (simp only: append_Nil)
qed

section \<open>The poll loop and the order of the notification\<close>

text \<open>
  C8. Every poll is preceded by a sleep of 5. However many times the service answers
  \<^verbatim>\<open>pending\<close>, the loop polls again; when it then answers \<^verbatim>\<open>complete\<close>, the
  interaction provider's \<^verbatim>\<open>report_authentication_success\<close> is called, once, and the
  token request is posted after it, once. A status that is neither \<^verbatim>\<open>pending\<close> nor
  \<^verbatim>\<open>complete\<close> ends the run. A service that answers \<^verbatim>\<open>pending\<close> for ever keeps the
  loop polling for ever.
\<close>

theorem polling_state_machine:
  "((\<forall>i<k. poll env i (poll_url u) = Inr (Some ''pending''))
      \<and> poll env k (poll_url u) = Inr (Some ''complete'')
      \<and> report_authentication_success env = Inr () \<longrightarrow>
    poll_for_auth env u c v 0 tr =
      Some (exchange_token env c v
              (tr @ concat (replicate (Suc k) [Sleep 5, HttpGet (poll_url u)])
                 @ [ReportAuthenticationSuccess]))
    \<and> (\<exists>ext. map_option snd (poll_for_auth env u c v 0 tr) =
          Some (tr @ concat (replicate (Suc k) [Sleep 5, HttpGet (poll_url u)])
                  @ [ReportAuthenticationSuccess,
                     HttpPost ''https://app.api.kivra.com/v2/oauth2/token''] @ ext)
          \<and> ReportAuthenticationSuccess \<notin> set ext
          \<and> HttpPost ''https://app.api.kivra.com/v2/oauth2/token'' \<notin> set ext))
   \<and> ((\<forall>i<k. poll env i (poll_url u) = Inr (Some ''pending''))
      \<and> poll env k (poll_url u) = Inr st \<and> st \<noteq> Some ''complete'' \<and> st \<noteq> Some ''pending'' \<longrightarrow>
    poll_for_auth env u c v 0 tr =
      Some (Inl (SystemExit ''BankID authentication failed''),
            tr @ concat (replicate (Suc k) [Sleep 5, HttpGet (poll_url u)])
               @ [AuthLogError ''Error during polling'']))
   \<and> ((\<forall>i. poll env i (poll_url u) = Inr (Some ''pending'')) \<longrightarrow>
        poll_for_auth env u c v 0 tr = None)"
proof (intro conjI impI)
  let ?polls = "\<lambda>k. concat (replicate k [Sleep 5, HttpGet (poll_url u)])"
  have more: "?polls k @ [Sleep 5, HttpGet (poll_url u)] = ?polls (Suc k)" for k
    by (induction k) simp_all
  {
    assume h: "(\<forall>i<k. poll env i (poll_url u) = Inr (Some ''pending''))
      \<and> poll env k (poll_url u) = Inr (Some ''complete'')
      \<and> report_authentication_success env = Inr ()"
    then have p: "\<And>i. i < k \<Longrightarrow> poll env (0 + i) (poll_url u) = Inr (Some ''pending'')"
      and d: "poll env (0 + k) (poll_url u) = Inr (Some ''complete'')"
      and r: "report_authentication_success env = Inr ()"
      by simp_all
    have "poll_for_auth env u c v 0 tr = poll_for_auth env u c v (0 + k) (tr @ ?polls k)"
      by (rule poll_pending_times[OF p])
    also have "\<dots> = Some (complete_auth env c v ((tr @ ?polls k) @ [Sleep 5, HttpGet (poll_url u)]))"
      by (rule poll_complete[OF d])
    also have "(tr @ ?polls k) @ [Sleep 5, HttpGet (poll_url u)] = tr @ ?polls (Suc k)"
      using more[of k] by simp
    also have "complete_auth env c v (tr @ ?polls (Suc k))
                 = exchange_token env c v ((tr @ ?polls (Suc k)) @ [ReportAuthenticationSuccess])"
      by (rule complete_auth_reported[OF r])
    finally show eq: "poll_for_auth env u c v 0 tr =
      Some (exchange_token env c v
              (tr @ concat (replicate (Suc k) [Sleep 5, HttpGet (poll_url u)])
                 @ [ReportAuthenticationSuccess]))"
      by simp
    from exchange_token_extends[of env c v "tr @ ?polls (Suc k) @ [ReportAuthenticationSuccess]"]
    obtain ext where
      e: "snd (exchange_token env c v (tr @ ?polls (Suc k) @ [ReportAuthenticationSuccess]))
            = (tr @ ?polls (Suc k) @ [ReportAuthenticationSuccess])
                @ HttpPost ''https://app.api.kivra.com/v2/oauth2/token'' # ext"
      and n: "ReportAuthenticationSuccess \<notin> set ext"
             "HttpPost ''https://app.api.kivra.com/v2/oauth2/token'' \<notin> set ext"
      by blast
    from e have "map_option snd (poll_for_auth env u c v 0 tr) =
          Some (tr @ concat (replicate (Suc k) [Sleep 5, HttpGet (poll_url u)])
                  @ [ReportAuthenticationSuccess,
                     HttpPost ''https://app.api.kivra.com/v2/oauth2/token''] @ ext)"
      by (simp only: eq option.map) simp
    with n show "\<exists>ext. map_option snd (poll_for_auth env u c v 0 tr) =
          Some (tr @ concat (replicate (Suc k) [Sleep 5, HttpGet (poll_url u)])
                  @ [ReportAuthenticationSuccess,
                     HttpPost ''https://app.api.kivra.com/v2/oauth2/token''] @ ext)
          \<and> ReportAuthenticationSuccess \<notin> set ext
          \<and> HttpPost ''https://app.api.kivra.com/v2/oauth2/token'' \<notin> set ext"
      by blast
  }
  {
    assume h: "(\<forall>i<k. poll env i (poll_url u) = Inr (Some ''pending''))
      \<and> poll env k (poll_url u) = Inr st \<and> st \<noteq> Some ''complete'' \<and> st \<noteq> Some ''pending''"
    then have p: "\<And>i. i < k \<Longrightarrow> poll env (0 + i) (poll_url u) = Inr (Some ''pending'')"
      and d: "poll env (0 + k) (poll_url u) = Inr st"
      and s: "st \<noteq> Some ''complete''" "st \<noteq> Some ''pending''"
      by simp_all
    have "poll_for_auth env u c v 0 tr = poll_for_auth env u c v (0 + k) (tr @ ?polls k)"
      by (rule poll_pending_times[OF p])
    also have "\<dots> = Some (Inl (SystemExit ''BankID authentication failed''),
               (tr @ ?polls k) @ [Sleep 5, HttpGet (poll_url u), AuthLogError ''Error during polling''])"
      by (rule poll_other[OF d s])
    also have "(tr @ ?polls k) @ [Sleep 5, HttpGet (poll_url u), AuthLogError ''Error during polling'']
                 = tr @ ?polls (Suc k) @ [AuthLogError ''Error during polling'']"
      using more[of k] by simp
    finally show "poll_for_auth env u c v 0 tr =
      Some (Inl (SystemExit ''BankID authentication failed''),
            tr @ concat (replicate (Suc k) [Sleep 5, HttpGet (poll_url u)])
               @ [AuthLogError ''Error during polling''])" .
  }
  {
    assume h: "\<forall>i. poll env i (poll_url u) = Inr (Some ''pending'')"
    show "poll_for_auth env u c v 0 tr = None"
    proof (cases "poll_for_auth env u c v 0 tr")
      case None
      then show ?thesis .
    next
      case (Some r)
      from poll_never_returns[OF Some] h show ?thesis by blast
    qed
  }
qed

theorem polling_state_machine_witness:
  "poll_for_auth example_env (Some ''/v2/oauth2/poll/1'') ''c0de'' ''verifier'' 0 [] =
     Some (Inr \<lparr> cr_access_token = Some ''at'', cr_actor_key = ''u1'',
                 cr_jwt_data = \<lparr> jd_kivra_user_id = Some ''u1'' \<rparr> \<rparr>,
           [Sleep 5, HttpGet ''https://app.api.kivra.com/v2/oauth2/poll/1'',
            Sleep 5, HttpGet ''https://app.api.kivra.com/v2/oauth2/poll/1'',
            Sleep 5, HttpGet ''https://app.api.kivra.com/v2/oauth2/poll/1'',
            Sleep 5, HttpGet ''https://app.api.kivra.com/v2/oauth2/poll/1'',
            ReportAuthenticationSuccess,
            HttpPost ''https://app.api.kivra.com/v2/oauth2/token''])
   \<and> poll_for_auth (example_env\<lparr> poll := (\<lambda>n url. Inr (if n < 1 then Some ''pending'' else None)) \<rparr>)
        (Some ''/v2/oauth2/poll/1'') ''c0de'' ''verifier'' 0 [] =
       Some (Inl (SystemExit ''BankID authentication failed''),
             [Sleep 5, HttpGet ''https://app.api.kivra.com/v2/oauth2/poll/1'',
              Sleep 5, HttpGet ''https://app.api.kivra.com/v2/oauth2/poll/1'',
              AuthLogError ''Error during polling''])
   \<and> poll_for_auth (example_env\<lparr> poll := (\<lambda>n url. Inr (Some ''pending'')) \<rparr>)
        (Some ''/v2/oauth2/poll/1'') ''c0de'' ''verifier'' 0 [] = None"
proof -
  let ?u = "Some ''/v2/oauth2/poll/1''"
  have p: "\<forall>i<3. poll example_env i (poll_url ?u) = Inr (Some ''pending'')"
    by (simp add: example_env_def poll_url_def)
  have d: "poll example_env 3 (poll_url ?u) = Inr (Some ''complete'')"
    by (simp add: example_env_def poll_url_def)
  have r: "report_authentication_success example_env = Inr ()"
    by (simp add: example_env_def)
  note T = polling_state_machine
             [where env = example_env and u = ?u and k = 3 and c = "''c0de''"
                and v = "''verifier''" and tr = "[]"]
  have a: "poll_for_auth example_env ?u ''c0de'' ''verifier'' 0 [] =
     Some (Inr \<lparr> cr_access_token = Some ''at'', cr_actor_key = ''u1'',
                 cr_jwt_data = \<lparr> jd_kivra_user_id = Some ''u1'' \<rparr> \<rparr>,
           [Sleep 5, HttpGet ''https://app.api.kivra.com/v2/oauth2/poll/1'',
            Sleep 5, HttpGet ''https://app.api.kivra.com/v2/oauth2/poll/1'',
            Sleep 5, HttpGet ''https://app.api.kivra.com/v2/oauth2/poll/1'',
            Sleep 5, HttpGet ''https://app.api.kivra.com/v2/oauth2/poll/1'',
            ReportAuthenticationSuccess,
            HttpPost ''https://app.api.kivra.com/v2/oauth2/token''])"
    using conjunct1[OF mp[OF conjunct1[OF T] conjI[OF p conjI[OF d r]]]]
    by (simp add: example_exchange_token poll_url_def numeral_3_eq_3)
  let ?env1 = "example_env\<lparr> poll := (\<lambda>n url. Inr (if n < 1 then Some ''pending'' else None)) \<rparr>"
  have p1: "\<forall>i<1. poll ?env1 i (poll_url ?u) = Inr (Some ''pending'')" by simp
  have d1: "poll ?env1 1 (poll_url ?u) = Inr None" by simp
  have s1: "None \<noteq> Some ''complete''" "None \<noteq> Some ''pending''" by simp_all
  have b: "poll_for_auth ?env1 ?u ''c0de'' ''verifier'' 0 [] =
       Some (Inl (SystemExit ''BankID authentication failed''),
             [Sleep 5, HttpGet ''https://app.api.kivra.com/v2/oauth2/poll/1'',
              Sleep 5, HttpGet ''https://app.api.kivra.com/v2/oauth2/poll/1'',
              AuthLogError ''Error during polling''])"
    using mp[OF conjunct1[OF conjunct2[OF polling_state_machine
               [where env = ?env1 and u = ?u and k = 1 and st = None and c = "''c0de''"
                  and v = "''verifier''" and tr = "[]"]]]
             conjI[OF p1 conjI[OF d1 conjI[OF s1]]]]
    by (simp add: poll_url_def)
  let ?env2 = "example_env\<lparr> poll := (\<lambda>n url. Inr (Some ''pending'')) \<rparr>"
  have p2: "\<forall>i. poll ?env2 i (poll_url ?u) = Inr (Some ''pending'')" by simp
  note c = mp[OF conjunct2[OF conjunct2[OF polling_state_machine
               [where env = ?env2 and u = ?u and c = "''c0de''" and v = "''verifier''"
                  and tr = "[]"]]] p2]
  from a b c show ?thesis by (intro conjI)
qed

section \<open>The challenge and the decoding of the identity token\<close>

text \<open>
  C9. The challenge is a function of the verifier, so two derivations agree. The round
  trip does not hold in the code: a segment is written with the URL-safe alphabet, and
  the decode at token time restores the padding and then calls \<^verbatim>\<open>base64.b64decode\<close>,
  which reads the standard alphabet and discards the URL-safe digits \<^verbatim>\<open>-\<close> and \<^verbatim>\<open>_\<close>.
  The payload \<^verbatim>\<open>{"kivra_user_id":"u1","iss":"https://kivra.com/?v=2"}\<close> is encoded to a
  segment with one \<^verbatim>\<open>_\<close>; decoding that segment raises \<^verbatim>\<open>Incorrect padding\<close>, which
  ends the token exchange. The three bytes \<^verbatim>\<open>ab?\<close> come back as the two bytes \<^verbatim>\<open>ab\<close>.
\<close>

theorem segment_round_trip_fails:
  "rstrip_eq (urlsafe_b64encode iss_payload)
     = ''eyJraXZyYV91c2VyX2lkIjoidTEiLCJpc3MiOiJodHRwczovL2tpdnJhLmNvbS8_dj0yIn0''
   \<and> decode_segment (rstrip_eq (urlsafe_b64encode iss_payload))
       = Inl (ValueError ''Incorrect padding'')
   \<and> exchange_token iss_env ''c0de'' ''verifier'' []
       = (Inl (Raised (ValueError ''Incorrect padding'')),
          [HttpPost ''https://app.api.kivra.com/v2/oauth2/token''])
   \<and> rstrip_eq (urlsafe_b64encode ''ab?'') = ''YWI_''
   \<and> decode_segment (rstrip_eq (urlsafe_b64encode ''ab?'')) = Inr ''ab''
   \<and> generate_code_challenge example_env ''verifier''
       = ''MDEyMzQ1Njc4OWFiY2RlZjAxMjM0NTY3ODlhYmNkZWY''"
  by code_simp

section \<open>An item without a key\<close>



end
